theory Spec2Isabelle
  imports Complex_Main
begin

section \<open>Python values and exceptions\<close>

text \<open>
  The exceptions that the modelled code can raise. \<open>SolverError\<close> stands for any
  exception leaving \<open>sympy.nsolve\<close>; \<open>ExternalError\<close> for one leaving a
  collaborator object that is handed to \<open>Skywalker\<close>.
\<close>

datatype error =
    NameError
  | TypeError
  | OverflowError
  | CNCException
  | NotImplementedError
  | SolverError
  | ExternalError

text \<open>
  The Python values that are tested for identity or truth: \<open>None\<close>, the two booleans,
  integers, floats, strings, other objects (by an identifier) and bound methods (by the
  method's name).
\<close>

datatype pyval =
    PNone
  | PBool bool
  | PInt int
  | PFloat real
  | PStr string
  | PObj nat
  | PMethod string

text \<open>Python's truth test \<open>bool(v)\<close>: objects and bound methods are always true.\<close>

fun truthy :: "pyval \<Rightarrow> bool" where
  "truthy PNone = False"
| "truthy (PBool b) = b"
| "truthy (PInt i) = (i \<noteq> 0)"
| "truthy (PFloat r) = (r \<noteq> 0)"
| "truthy (PStr s) = (s \<noteq> [])"
| "truthy (PObj n) = True"
| "truthy (PMethod m) = True"

section \<open>Floating-point numbers\<close>

text \<open>
  A \<open>float64\<close>: a finite value, an infinity or \<open>nan\<close>. The sign of a zero is not
  kept; the only place where it shows, the sign of the infinity that a division by zero
  returns, is not kept either (see \<open>np_quot\<close>).
\<close>

datatype fl = Fin real | PInf | NInf | NaN

text \<open>
  Rounding to the nearest \<open>float64\<close>, ties to even: \<open>quantum x\<close> is the spacing of
  the floats at \<open>x\<close> (53 significant bits, least exponent \<open>-1022\<close>), \<open>rne\<close> rounds
  to the nearest integer, and \<open>fin\<close> gives the float of an exact result, an infinity
  when the rounded value exceeds the largest float \<open>fmax\<close>.
\<close>

definition fmax :: real where
  "fmax = (2 ^ 53 - 1) * 2 ^ 971"

definition rne :: "real \<Rightarrow> int" where
  "rne y =
     (if y - of_int \<lfloor>y\<rfloor> < 1 / 2 then \<lfloor>y\<rfloor>
      else if 1 / 2 < y - of_int \<lfloor>y\<rfloor> then \<lfloor>y\<rfloor> + 1
      else if even \<lfloor>y\<rfloor> then \<lfloor>y\<rfloor> else \<lfloor>y\<rfloor> + 1)"

definition quantum :: "real \<Rightarrow> real" where
  "quantum x = 2 powr of_int (max \<lfloor>log 2 \<bar>x\<bar>\<rfloor> (- 1022) - 52)"

definition round64 :: "real \<Rightarrow> real" where
  "round64 x = (if x = 0 then 0 else of_int (rne (x / quantum x)) * quantum x)"

definition fin :: "real \<Rightarrow> fl" where
  "fin r = (if fmax < round64 r then PInf else if round64 r < - fmax then NInf else Fin (round64 r))"

text \<open>
  Negation, addition, subtraction and multiplication of floats, for Python floats and
  for \<open>numpy.float64\<close> alike: an overflow gives an infinity and nothing is raised.
\<close>

instantiation fl :: "{uminus, plus, minus, times}"
begin

fun uminus_fl :: "fl \<Rightarrow> fl" where
  "uminus_fl (Fin a) = Fin (- a)"
| "uminus_fl PInf = NInf"
| "uminus_fl NInf = PInf"
| "uminus_fl NaN = NaN"

fun plus_fl :: "fl \<Rightarrow> fl \<Rightarrow> fl" where
  "plus_fl (Fin a) (Fin b) = fin (a + b)"
| "plus_fl NaN y = NaN"
| "plus_fl x NaN = NaN"
| "plus_fl PInf NInf = NaN"
| "plus_fl NInf PInf = NaN"
| "plus_fl PInf y = PInf"
| "plus_fl x PInf = PInf"
| "plus_fl NInf y = NInf"
| "plus_fl x NInf = NInf"

definition minus_fl :: "fl \<Rightarrow> fl \<Rightarrow> fl" where
  "minus_fl x y = x + (- y)"

fun times_fl :: "fl \<Rightarrow> fl \<Rightarrow> fl" where
  "times_fl (Fin a) (Fin b) = fin (a * b)"
| "times_fl NaN y = NaN"
| "times_fl x NaN = NaN"
| "times_fl PInf (Fin b) = (if b = 0 then NaN else if 0 < b then PInf else NInf)"
| "times_fl NInf (Fin b) = (if b = 0 then NaN else if 0 < b then NInf else PInf)"
| "times_fl (Fin a) PInf = (if a = 0 then NaN else if 0 < a then PInf else NInf)"
| "times_fl (Fin a) NInf = (if a = 0 then NaN else if 0 < a then NInf else PInf)"
| "times_fl PInf PInf = PInf"
| "times_fl PInf NInf = NInf"
| "times_fl NInf PInf = NInf"
| "times_fl NInf NInf = PInf"

instance ..

end

text \<open>\<open>numpy.sqrt\<close>: \<open>nan\<close> for a negative argument, with a warning and no exception.\<close>

fun fl_sqrt :: "fl \<Rightarrow> fl" where
  "fl_sqrt (Fin a) = (if a < 0 then NaN else fin (sqrt a))"
| "fl_sqrt PInf = PInf"
| "fl_sqrt NInf = NaN"
| "fl_sqrt NaN = NaN"

text \<open>
  The value of an angle expression: \<open>Num r\<close> is a finite \<open>numpy.float64\<close>, which
  is what a closed-form solve returns since \<open>numpy.sqrt\<close> returns one; \<open>PyNum r\<close>
  is a finite Python float, as a device gives it; \<open>NonFinite\<close> is an infinity or
  \<open>nan\<close> of either kind; \<open>NoneVal\<close> is Python's \<open>None\<close>.
\<close>

datatype angle = Num real | PyNum real | NonFinite | NoneVal

fun finite_value :: "angle \<Rightarrow> real option" where
  "finite_value (Num r) = Some r"
| "finite_value (PyNum r) = Some r"
| "finite_value NonFinite = None"
| "finite_value NoneVal = None"

text \<open>
  The quotient \<open>num / den\<close> of a \<open>numpy.float64\<close> \<open>num\<close>: a division by zero
  gives an infinity or \<open>nan\<close> with a warning, and no exception; a finite numerator
  over an infinity gives zero.
\<close>

fun np_quot :: "fl \<Rightarrow> fl \<Rightarrow> angle" where
  "np_quot (Fin n) (Fin d) =
     (if d = 0 then NonFinite else (case fin (n / d) of Fin v \<Rightarrow> Num v | _ \<Rightarrow> NonFinite))"
| "np_quot (Fin n) PInf = Num 0"
| "np_quot (Fin n) NInf = Num 0"
| "np_quot (Fin n) NaN = NonFinite"
| "np_quot PInf d = NonFinite"
| "np_quot NInf d = NonFinite"
| "np_quot NaN d = NonFinite"

section \<open>The geometry solves \<open>alpha1\<close> and \<open>alpha2\<close> (walker/iterwalk.py)\<close>

text \<open>
  \<open>sympy.nsolve\<close> and the power function of the C library are routines outside the
  repository; they are parameters of the model. \<open>nsolve\<close> is given the expression as
  a function of the unknown (\<open>None\<close> when an argument of the expression is not a
  finite number) and the seed, and returns an angle or raises. \<open>libm_pow2 r\<close> is
  \<open>pow(r, 2.0)\<close> for a finite \<open>r\<close>: both Python's and numpy's \<open>r**2\<close> call it,
  and it is not always the correctly rounded product \<open>r*r\<close>.
\<close>

type_synonym solver = "(real \<Rightarrow> real) option \<Rightarrow> real \<Rightarrow> error + angle"

record lib =
  nsolve :: solver
  libm_pow2 :: "real \<Rightarrow> fl"

text \<open>
  The value of \<open>v**2\<close> when it returns, and whether \<open>r**2\<close> raises for a finite
  Python float \<open>r\<close>: Python raises \<open>OverflowError\<close> when the C library returns an
  infinity, numpy returns the infinity.
\<close>

fun sq :: "lib \<Rightarrow> fl \<Rightarrow> fl" where
  "sq L (Fin r) = libm_pow2 L r"
| "sq L PInf = PInf"
| "sq L NInf = PInf"
| "sq L NaN = NaN"

definition sq_raises :: "lib \<Rightarrow> real \<Rightarrow> bool" where
  "sq_raises L r = (libm_pow2 L r = PInf \<or> libm_pow2 L r = NInf)"

fun fl_sq_raises :: "lib \<Rightarrow> fl \<Rightarrow> bool" where
  "fl_sq_raises L (Fin r) = sq_raises L r"
| "fl_sq_raises L PInf = False"
| "fl_sq_raises L NInf = False"
| "fl_sq_raises L NaN = False"

text \<open>
  The closed form of \<open>alpha1\<close> is \<open>(B - sqrt(D)) / (4*(d4 - d5))\<close>; \<open>alpha1_B\<close>
  is the sum before the square root and \<open>alpha1_D\<close> the argument of the square root,
  term by term and in the order of the source. They are written once for any
  arithmetic: \<open>k\<close> gives the value of a literal and \<open>q v\<close> is \<open>v**2\<close>. On floats
  every operation rounds; on the reals they are the exact expressions.
\<close>

definition alpha1_B :: "(real \<Rightarrow> 'a) \<Rightarrow> 'a \<Rightarrow> 'a \<Rightarrow> 'a \<Rightarrow> 'a \<Rightarrow> 'a \<Rightarrow> 'a \<Rightarrow> 'a \<Rightarrow> 'a \<Rightarrow> 'a \<Rightarrow> 'a::{uminus,plus,minus,times}" where
  "alpha1_B k x0 xp0 a2 d2 d4 d5 m1hdx m2hdx x =
     (- a2)*d2 + k 4*a2*d4 - k 3*a2*d5 + k 2*d4*xp0 - k 2*d5*xp0 - m2hdx + x"

definition alpha1_D :: "(real \<Rightarrow> 'a) \<Rightarrow> ('a \<Rightarrow> 'a) \<Rightarrow> 'a \<Rightarrow> 'a \<Rightarrow> 'a \<Rightarrow> 'a \<Rightarrow> 'a \<Rightarrow> 'a \<Rightarrow> 'a \<Rightarrow> 'a \<Rightarrow> 'a \<Rightarrow> 'a::{uminus,plus,minus,times}" where
  "alpha1_D k q x0 xp0 a2 d2 d4 d5 m1hdx m2hdx x =
     q a2*q d2 - k 8*q a2*d2*d4 + k 6*q a2*d2*d5 + k 8*q a2*q d4 - k 8*q a2*d4*d5
     + q a2*q d5 - k 4*a2*d2*d4*xp0 + k 4*a2*d2*d5*xp0 + k 2*a2*d2*m2hdx - k 2*a2*d2*x
     + k 8*a2*d4*m1hdx - k 8*a2*d4*m2hdx + k 4*a2*d4*x - k 4*a2*d4*x0 - k 8*a2*d5*m1hdx
     + k 6*a2*d5*m2hdx - k 2*a2*d5*x + k 4*a2*d5*x0 + q m2hdx - k 2*m2hdx*x + q x"

text \<open>
  The closed form of \<open>alpha2\<close> is \<open>(B + sqrt(D)) / (4*(d4 - d6))\<close>, with its own
  \<open>B\<close> and \<open>D\<close>.
\<close>

definition alpha2_B :: "(real \<Rightarrow> 'a) \<Rightarrow> 'a \<Rightarrow> 'a \<Rightarrow> 'a \<Rightarrow> 'a \<Rightarrow> 'a \<Rightarrow> 'a \<Rightarrow> 'a \<Rightarrow> 'a \<Rightarrow> 'a \<Rightarrow> 'a::{uminus,plus,minus,times}" where
  "alpha2_B k x0 xp0 a1 d2 d4 d6 m1hdx m2hdx x =
     k (- 2)*a1*d2 + k 8*a1*d4 - k 6*a1*d6 - k 4*d4*xp0 + k 3*d6*xp0 + k 2*m1hdx - x
     - x0"

definition alpha2_D :: "(real \<Rightarrow> 'a) \<Rightarrow> ('a \<Rightarrow> 'a) \<Rightarrow> 'a \<Rightarrow> 'a \<Rightarrow> 'a \<Rightarrow> 'a \<Rightarrow> 'a \<Rightarrow> 'a \<Rightarrow> 'a \<Rightarrow> 'a \<Rightarrow> 'a \<Rightarrow> 'a::{uminus,plus,minus,times}" where
  "alpha2_D k q x0 xp0 a1 d2 d4 d6 m1hdx m2hdx x =
     k 4*q a1*q d2 - k 32*q a1*d2*d4 + k 24*q a1*d2*d6 + k 32*q a1*q d4
     - k 32*q a1*d4*d6 + k 4*q a1*q d6 + k 16*a1*d2*d4*xp0 - k 12*a1*d2*d6*xp0
     - k 8*a1*d2*m1hdx + k 4*a1*d2*x + k 4*a1*d2*x0 - k 32*a1*q d4*xp0
     + k 32*a1*d4*d6*xp0 + k 32*a1*d4*m1hdx - k 16*a1*d4*m2hdx - k 16*a1*d4*x0
     - k 4*a1*q d6*xp0 - k 24*a1*d6*m1hdx + k 16*a1*d6*m2hdx - k 4*a1*d6*x
     + k 12*a1*d6*x0 + k 8*q d4*q xp0 - k 8*d4*d6*q xp0 - k 16*d4*m1hdx*xp0
     + k 8*d4*m2hdx*xp0 + k 8*d4*x0*xp0 + q d6*q xp0 + k 12*d6*m1hdx*xp0
     - k 8*d6*m2hdx*xp0 + k 2*d6*x*xp0 - k 6*d6*x0*xp0 + k 4*q m1hdx - k 4*m1hdx*x
     - k 4*m1hdx*x0 + q x + k 2*x*x0 + q x0"

text \<open>
  The closed forms in \<open>float64\<close>, for a finite companion angle \<open>a\<close> and when no
  square raises.
\<close>

definition closed_form_1 :: "lib \<Rightarrow> real \<Rightarrow> real \<Rightarrow> real \<Rightarrow> real \<Rightarrow> real \<Rightarrow> real \<Rightarrow> real \<Rightarrow> real \<Rightarrow> fl \<Rightarrow> angle" where
  "closed_form_1 L x0 xp0 a d2 d4 d5 m1hdx m2hdx x =
     np_quot
       (alpha1_B Fin (Fin x0) (Fin xp0) (Fin a) (Fin d2) (Fin d4) (Fin d5) (Fin m1hdx) (Fin m2hdx) x
        - fl_sqrt (alpha1_D Fin (sq L) (Fin x0) (Fin xp0) (Fin a) (Fin d2) (Fin d4) (Fin d5)
                     (Fin m1hdx) (Fin m2hdx) x))
       (Fin 4 * (Fin d4 - Fin d5))"

definition closed_form_2 :: "lib \<Rightarrow> real \<Rightarrow> real \<Rightarrow> real \<Rightarrow> real \<Rightarrow> real \<Rightarrow> real \<Rightarrow> real \<Rightarrow> real \<Rightarrow> fl \<Rightarrow> angle" where
  "closed_form_2 L x0 xp0 a d2 d4 d6 m1hdx m2hdx x =
     np_quot
       (alpha2_B Fin (Fin x0) (Fin xp0) (Fin a) (Fin d2) (Fin d4) (Fin d6) (Fin m1hdx) (Fin m2hdx) x
        + fl_sqrt (alpha2_D Fin (sq L) (Fin x0) (Fin xp0) (Fin a) (Fin d2) (Fin d4) (Fin d6)
                     (Fin m1hdx) (Fin m2hdx) x))
       (Fin 4 * (Fin d4 - Fin d6))"

text \<open>
  The expression handed to \<open>sympy.nsolve\<close> when \<open>t is True\<close>: the transport of the
  beam, minus the target \<open>x\<close>; \<open>T\<close> is the tangent. It is the same expression in
  \<open>alpha1\<close> and \<open>alpha2\<close>, up to the imager distance \<open>d\<close> (\<open>d5\<close> or \<open>d6\<close>) and
  the unknown (\<open>a1\<close> in \<open>alpha1\<close>, \<open>a2\<close> in \<open>alpha2\<close>).
\<close>

definition nl_num :: "(real \<Rightarrow> real) \<Rightarrow> real \<Rightarrow> real \<Rightarrow> real \<Rightarrow> real \<Rightarrow> real \<Rightarrow> real \<Rightarrow> real \<Rightarrow> real \<Rightarrow> real \<Rightarrow> real" where
  "nl_num T x0 xp0 a1 a2 d2 d4 d m1hdx m2hdx =
     d2*T a1*T a2*T xp0 - d2*T a1*T a2*T (2*a1 - xp0) +
     d4*T a1*T a2*T (2*a1 - xp0) -
     d4*T a2*T xp0*T (2*a1 - xp0) - m1hdx*T a2*T xp0 +
     m1hdx*T a2*T (2*a1 - xp0) - m2hdx*T a1*T (2*a1 - xp0) +
     m2hdx*T xp0*T (2*a1 - xp0) + x0*T a1*T a2 -
     x0*T a2*T (2*a1 - xp0) + (- d4 + d)*(
       T a1*T a2 - T a1*T (2*a1 - xp0) - T a2*T xp0 +
       T xp0*T (2*a1 - xp0))*T (- 2*a1 + 2*a2 + xp0)"

definition nl_den :: "(real \<Rightarrow> real) \<Rightarrow> real \<Rightarrow> real \<Rightarrow> real \<Rightarrow> real" where
  "nl_den T xp0 a1 a2 =
     T a1*T a2 - T a1*T (2*a1 - xp0) - T a2*T xp0 + T xp0*T (2*a1 - xp0)"

definition nl_expr :: "(real \<Rightarrow> real) \<Rightarrow> real \<Rightarrow> real \<Rightarrow> real \<Rightarrow> real \<Rightarrow> real \<Rightarrow> real \<Rightarrow> real \<Rightarrow> real \<Rightarrow> real \<Rightarrow> real \<Rightarrow> real" where
  "nl_expr T x0 xp0 a1 a2 d2 d4 d m1hdx m2hdx x =
     nl_num T x0 xp0 a1 a2 d2 d4 d m1hdx m2hdx / nl_den T xp0 a1 a2 - x"

text \<open>
  \<open>alpha1(x0, xp0, a2, d2, d4, d5, m1hdx, m2hdx, x, t)\<close> on float arguments:
  \<open>x0\<close> to \<open>m2hdx\<close> are finite Python floats, \<open>x\<close> is a Python float and the
  companion angle \<open>a2\<close> is the walker's estimate. With \<open>t is False\<close>: \<open>-a2\<close>
  raises \<open>TypeError\<close> on \<open>None\<close>; the squares are those of \<open>a2\<close>, \<open>d2\<close>,
  \<open>d4\<close>, \<open>d5\<close>, \<open>m2hdx\<close> and \<open>x\<close>, and the one of a finite Python float
  raises \<open>OverflowError\<close> when it overflows; a non-finite \<open>a2\<close> makes the sum before
  the square root, and hence the result, non-finite. When \<open>t\<close> is neither \<open>False\<close>
  nor \<open>True\<close> the function falls off its end and returns \<open>None\<close>.
\<close>

definition alpha1 :: "lib \<Rightarrow> real \<Rightarrow> real \<Rightarrow> angle \<Rightarrow> real \<Rightarrow> real \<Rightarrow> real \<Rightarrow> real \<Rightarrow> real \<Rightarrow> fl \<Rightarrow> pyval \<Rightarrow> error + angle" where
  "alpha1 L x0 xp0 a2 d2 d4 d5 m1hdx m2hdx x t =
     (if t = PBool False then
        (case a2 of
           NoneVal \<Rightarrow> Inl TypeError
         | NonFinite \<Rightarrow>
             if sq_raises L d2 \<or> sq_raises L d4 \<or> sq_raises L d5 \<or> sq_raises L m2hdx
                \<or> fl_sq_raises L x
             then Inl OverflowError else Inr NonFinite
         | Num a \<Rightarrow>
             if sq_raises L d2 \<or> sq_raises L d4 \<or> sq_raises L d5 \<or> sq_raises L m2hdx
                \<or> fl_sq_raises L x
             then Inl OverflowError
             else Inr (closed_form_1 L x0 xp0 a d2 d4 d5 m1hdx m2hdx x)
         | PyNum a \<Rightarrow>
             if sq_raises L a \<or> sq_raises L d2 \<or> sq_raises L d4 \<or> sq_raises L d5
                \<or> sq_raises L m2hdx \<or> fl_sq_raises L x
             then Inl OverflowError
             else Inr (closed_form_1 L x0 xp0 a d2 d4 d5 m1hdx m2hdx x))
      else if t = PBool True then
        nsolve L
          (case (finite_value a2, x) of
             (Some a, Fin xr) \<Rightarrow> Some (\<lambda>a1. nl_expr tan x0 xp0 a1 a d2 d4 d5 m1hdx m2hdx xr)
           | _ \<Rightarrow> None)
          (14 / 10000)
      else Inr NoneVal)"

text \<open>
  \<open>alpha2(x0, xp0, a1, d2, d4, d6, m1hdx, m2hdx, x, t)\<close>; its squares are those of
  \<open>a1\<close>, \<open>d2\<close>, \<open>d4\<close>, \<open>d6\<close>, \<open>xp0\<close>, \<open>m1hdx\<close>, \<open>x\<close> and \<open>x0\<close>.
\<close>

definition alpha2 :: "lib \<Rightarrow> real \<Rightarrow> real \<Rightarrow> angle \<Rightarrow> real \<Rightarrow> real \<Rightarrow> real \<Rightarrow> real \<Rightarrow> real \<Rightarrow> fl \<Rightarrow> pyval \<Rightarrow> error + angle" where
  "alpha2 L x0 xp0 a1 d2 d4 d6 m1hdx m2hdx x t =
     (if t = PBool False then
        (case a1 of
           NoneVal \<Rightarrow> Inl TypeError
         | NonFinite \<Rightarrow>
             if sq_raises L d2 \<or> sq_raises L d4 \<or> sq_raises L d6 \<or> sq_raises L xp0
                \<or> sq_raises L m1hdx \<or> fl_sq_raises L x \<or> sq_raises L x0
             then Inl OverflowError else Inr NonFinite
         | Num a \<Rightarrow>
             if sq_raises L d2 \<or> sq_raises L d4 \<or> sq_raises L d6 \<or> sq_raises L xp0
                \<or> sq_raises L m1hdx \<or> fl_sq_raises L x \<or> sq_raises L x0
             then Inl OverflowError
             else Inr (closed_form_2 L x0 xp0 a d2 d4 d6 m1hdx m2hdx x)
         | PyNum a \<Rightarrow>
             if sq_raises L a \<or> sq_raises L d2 \<or> sq_raises L d4 \<or> sq_raises L d6
                \<or> sq_raises L xp0 \<or> sq_raises L m1hdx \<or> fl_sq_raises L x \<or> sq_raises L x0
             then Inl OverflowError
             else Inr (closed_form_2 L x0 xp0 a d2 d4 d6 m1hdx m2hdx x))
      else if t = PBool True then
        nsolve L
          (case (finite_value a1, x) of
             (Some a, Fin xr) \<Rightarrow> Some (\<lambda>a2. nl_expr tan x0 xp0 a a2 d2 d4 d6 m1hdx m2hdx xr)
           | _ \<Rightarrow> None)
          (14 / 10000)
      else Inr NoneVal)"

text \<open>
  A library for concrete evaluations: an \<open>nsolve\<close> that always fails and a power
  function that is the correctly rounded product.
\<close>

definition failing_solver :: solver where
  "failing_solver f seed = Inl SolverError"

definition ex_lib :: lib where
  "ex_lib = \<lparr>nsolve = failing_solver, libm_pow2 = (\<lambda>r. fin (r * r))\<rparr>"

section \<open>Devices and the walker's state (walker/iterwalk.py)\<close>

text \<open>
  The devices are objects outside the walker; it holds handles to them and reads their
  attributes each time it needs them. Their attributes are finite Python floats, but for
  a mirror's \<open>alpha\<close>, which holds whatever the walker writes to it. The target pixels
  \<open>p1\<close> and \<open>p2\<close> are finite Python floats or \<open>None\<close>.
\<close>

record source =
  src_x :: real
  src_xp :: real

record mirror =
  mir_x :: real
  mir_z :: real
  mir_alpha :: angle

record imager =
  img_x :: real
  img_z :: real
  img_image_xsz :: real
  img_mppix :: real

text \<open>Every access to an attribute of a device is recorded, in order.\<close>

datatype device = Source | Mirror1 | Mirror2 | Imager1 | Imager2

datatype event = Get device string | Put device string angle

fun is_put :: "event \<Rightarrow> bool" where
  "is_put (Get d n) = False"
| "is_put (Put d n v) = True"

record devices =
  source :: source
  mirror_1 :: mirror
  mirror_2 :: mirror
  imager_1 :: imager
  imager_2 :: imager
  io :: "event list"

text \<open>
  The attributes of an \<open>IterWalker\<close> (the five handles are the devices of the
  state): \<open>p1\<close>, \<open>p2\<close> (a number or \<open>None\<close>), \<open>tan\<close>, \<open>max_n\<close> and the
  internal estimates \<open>_alpha_1\<close>, \<open>_alpha_2\<close>.
\<close>

record iterwalker =
  iw_p1 :: "real option"
  iw_p2 :: "real option"
  iw_tan :: pyval
  iw_max_n :: int
  iw_alpha_1 :: angle
  iw_alpha_2 :: angle

record state =
  hw :: devices
  self :: iterwalker

text \<open>
  A method is a function from the state to a result or an exception, and the state it
  leaves: what was read and assigned before a \<open>raise\<close> stays.
\<close>

type_synonym 'a prog = "state \<Rightarrow> (error + 'a) \<times> state"

definition ret :: "'a \<Rightarrow> 'a prog" where
  "ret v s = (Inr v, s)"

definition raise :: "error \<Rightarrow> 'a prog" where
  "raise e s = (Inl e, s)"

definition call :: "error + 'a \<Rightarrow> 'a prog" where
  "call r s = (r, s)"

definition pbind :: "'a prog \<Rightarrow> ('a \<Rightarrow> 'b prog) \<Rightarrow> 'b prog" where
  "pbind m f s = (case m s of (Inl e, s') \<Rightarrow> (Inl e, s') | (Inr v, s') \<Rightarrow> f v s')"

definition log :: "event list \<Rightarrow> state \<Rightarrow> state" where
  "log evs s = s\<lparr>hw := (hw s)\<lparr>io := io (hw s) @ evs\<rparr>\<rparr>"

definition getattr :: "device \<Rightarrow> string \<Rightarrow> (devices \<Rightarrow> 'a) \<Rightarrow> 'a prog" where
  "getattr d n f s = (Inr (f (hw s)), log [Get d n] s)"

definition getself :: "(iterwalker \<Rightarrow> 'a) \<Rightarrow> 'a prog" where
  "getself f s = (Inr (f (self s)), s)"

definition setself :: "(iterwalker \<Rightarrow> iterwalker) \<Rightarrow> unit prog" where
  "setself f s = (Inr (), s\<lparr>self := f (self s)\<rparr>)"

definition set_alpha :: "device \<Rightarrow> angle \<Rightarrow> unit prog" where
  "set_alpha d v s =
     (Inr (), log [Put d ''alpha'' v]
        (if d = Mirror1 then s\<lparr>hw := (hw s)\<lparr>mirror_1 := (mirror_1 (hw s))\<lparr>mir_alpha := v\<rparr>\<rparr>\<rparr>
         else if d = Mirror2 then s\<lparr>hw := (hw s)\<lparr>mirror_2 := (mirror_2 (hw s))\<lparr>mir_alpha := v\<rparr>\<rparr>\<rparr>
         else s))"

text \<open>
  \<open>IterWalker.__init__\<close>: the keyword arguments that were given, \<open>None\<close> for one
  that was not, with the defaults of the source; the estimates are read from the
  mirrors here.
\<close>

record iw_kwargs =
  kw_p1 :: "real option"
  kw_p2 :: "real option"
  kw_tan :: "pyval option"
  kw_max_n :: "int option"

definition IterWalker_init :: "iw_kwargs \<Rightarrow> devices \<Rightarrow> state" where
  "IterWalker_init kw d =
     log [Get Mirror1 ''alpha'', Get Mirror2 ''alpha'']
       \<lparr>hw = d,
        self = \<lparr>iw_p1 = kw_p1 kw, iw_p2 = kw_p2 kw,
                iw_tan = (case kw_tan kw of None \<Rightarrow> PBool False | Some t \<Rightarrow> t),
                iw_max_n = (case kw_max_n kw of None \<Rightarrow> 200 | Some n \<Rightarrow> n),
                iw_alpha_1 = mir_alpha (mirror_1 d),
                iw_alpha_2 = mir_alpha (mirror_2 d)\<rparr>\<rparr>"

text \<open>
  The properties \<open>goal_x_1\<close> and \<open>goal_x_2\<close>:
  \<open>imager.x + (p - imager.image_xsz/2 + 1)*imager.mppix\<close> in float arithmetic,
  operands read from left to right; the subtraction raises \<open>TypeError\<close> when \<open>p\<close>
  is \<open>None\<close>.
\<close>

definition goal_x_1 :: "fl prog" where
  "goal_x_1 =
     pbind (getattr Imager1 ''x'' (img_x \<circ> imager_1)) (\<lambda>ix.
     pbind (getself iw_p1) (\<lambda>p.
     pbind (getattr Imager1 ''image_xsz'' (img_image_xsz \<circ> imager_1)) (\<lambda>xsz.
     case p of
       None \<Rightarrow> raise TypeError
     | Some pv \<Rightarrow>
         pbind (getattr Imager1 ''mppix'' (img_mppix \<circ> imager_1)) (\<lambda>m.
         ret (Fin ix + (Fin pv - fin (xsz / 2) + Fin 1) * Fin m)))))"

definition goal_x_2 :: "fl prog" where
  "goal_x_2 =
     pbind (getattr Imager2 ''x'' (img_x \<circ> imager_2)) (\<lambda>ix.
     pbind (getself iw_p2) (\<lambda>p.
     pbind (getattr Imager2 ''image_xsz'' (img_image_xsz \<circ> imager_2)) (\<lambda>xsz.
     case p of
       None \<Rightarrow> raise TypeError
     | Some pv \<Rightarrow>
         pbind (getattr Imager2 ''mppix'' (img_mppix \<circ> imager_2)) (\<lambda>m.
         ret (Fin ix + (Fin pv - fin (xsz / 2) + Fin 1) * Fin m)))))"

text \<open>
  \<open>_alpha_1_calc\<close> and \<open>_alpha_2_calc\<close>: the arguments of the call are evaluated
  from left to right, then \<open>alpha1\<close> (\<open>alpha2\<close>) is called. The companion angle is
  the attribute \<open>_alpha_2\<close> (\<open>_alpha_1\<close>) of the walker.
\<close>

definition alpha_1_calc :: "lib \<Rightarrow> angle prog" where
  "alpha_1_calc L =
     pbind (getattr Source ''x'' (src_x \<circ> source)) (\<lambda>x0.
     pbind (getattr Source ''xp'' (src_xp \<circ> source)) (\<lambda>xp0.
     pbind (getself iw_alpha_2) (\<lambda>a2.
     pbind (getattr Mirror1 ''z'' (mir_z \<circ> mirror_1)) (\<lambda>d2.
     pbind (getattr Mirror2 ''z'' (mir_z \<circ> mirror_2)) (\<lambda>d4.
     pbind (getattr Imager1 ''z'' (img_z \<circ> imager_1)) (\<lambda>d5.
     pbind (getattr Mirror1 ''x'' (mir_x \<circ> mirror_1)) (\<lambda>m1hdx.
     pbind (getattr Mirror2 ''x'' (mir_x \<circ> mirror_2)) (\<lambda>m2hdx.
     pbind goal_x_1 (\<lambda>x.
     pbind (getself iw_tan) (\<lambda>t.
     call (alpha1 L x0 xp0 a2 d2 d4 d5 m1hdx m2hdx x t)))))))))))"

definition alpha_2_calc :: "lib \<Rightarrow> angle prog" where
  "alpha_2_calc L =
     pbind (getattr Source ''x'' (src_x \<circ> source)) (\<lambda>x0.
     pbind (getattr Source ''xp'' (src_xp \<circ> source)) (\<lambda>xp0.
     pbind (getself iw_alpha_1) (\<lambda>a1.
     pbind (getattr Mirror1 ''z'' (mir_z \<circ> mirror_1)) (\<lambda>d2.
     pbind (getattr Mirror2 ''z'' (mir_z \<circ> mirror_2)) (\<lambda>d4.
     pbind (getattr Imager2 ''z'' (img_z \<circ> imager_2)) (\<lambda>d6.
     pbind (getattr Mirror1 ''x'' (mir_x \<circ> mirror_1)) (\<lambda>m1hdx.
     pbind (getattr Mirror2 ''x'' (mir_x \<circ> mirror_2)) (\<lambda>m2hdx.
     pbind goal_x_2 (\<lambda>x.
     pbind (getself iw_tan) (\<lambda>t.
     call (alpha2 L x0 xp0 a1 d2 d4 d6 m1hdx m2hdx x t)))))))))))"

text \<open>\<open>_move_mirrors\<close>: mirror 1 is written first, then mirror 2.\<close>

definition move_mirrors :: "angle \<Rightarrow> angle \<Rightarrow> unit prog" where
  "move_mirrors alpha_1 alpha_2 =
     pbind (set_alpha Mirror1 alpha_1) (\<lambda>_. set_alpha Mirror2 alpha_2)"

text \<open>\<open>step\<close> returns the pair of the two calculations and assigns nothing.\<close>

definition step :: "lib \<Rightarrow> (angle \<times> angle) prog" where
  "step L =
     pbind (alpha_1_calc L) (\<lambda>a1.
     pbind (alpha_2_calc L) (\<lambda>a2.
     ret (a1, a2)))"

text \<open>
  The loop of \<open>align\<close>, \<open>for i in range(self.max_n)\<close>, over the number of
  iterations left: each iteration assigns \<open>_alpha_1\<close>, then \<open>_alpha_2\<close>.
\<close>

primrec align_loop :: "lib \<Rightarrow> nat \<Rightarrow> unit prog" where
  "align_loop L 0 = ret ()"
| "align_loop L (Suc n) =
     pbind (alpha_1_calc L) (\<lambda>a1.
     pbind (setself (\<lambda>w. w\<lparr>iw_alpha_1 := a1\<rparr>)) (\<lambda>_.
     pbind (alpha_2_calc L) (\<lambda>a2.
     pbind (setself (\<lambda>w. w\<lparr>iw_alpha_2 := a2\<rparr>)) (\<lambda>_.
     align_loop L n))))"

text \<open>
  \<open>align(p1=None, p2=None, move=False)\<close>. \<open>range(n)\<close> is empty for \<open>n \<le> 0\<close>;
  the mirrors are written only when \<open>move is True\<close>, after the loop.
\<close>

definition align :: "lib \<Rightarrow> real option \<Rightarrow> real option \<Rightarrow> pyval \<Rightarrow> (angle \<times> angle) prog" where
  "align L p1 p2 move =
     pbind (if p1 \<noteq> None then setself (\<lambda>w. w\<lparr>iw_p1 := p1\<rparr>) else ret ()) (\<lambda>_.
     pbind (if p2 \<noteq> None then setself (\<lambda>w. w\<lparr>iw_p2 := p2\<rparr>) else ret ()) (\<lambda>_.
     pbind (getself iw_max_n) (\<lambda>n.
     pbind (align_loop L (nat n)) (\<lambda>_.
     pbind (if move = PBool True
            then pbind (getself iw_alpha_1) (\<lambda>a1.
                 pbind (getself iw_alpha_2) (\<lambda>a2.
                 move_mirrors a1 a2))
            else ret ()) (\<lambda>_.
     pbind (getself iw_alpha_1) (\<lambda>a1.
     pbind (getself iw_alpha_2) (\<lambda>a2.
     ret (a1, a2))))))))"

section \<open>The dispatcher \<open>Skywalker\<close> (skywalker.py)\<close>

text \<open>
  The attributes of a \<open>Skywalker\<close>. The monitor, the walkers, the model and its
  builder are objects of modules outside these sources; the dispatcher only tests them
  for \<open>None\<close> or truth and calls their methods.
\<close>

record skywalker =
  sw_monitor :: pyval
  sw_walker :: pyval
  sw_model_builder :: pyval
  sw_model :: pyval
  sw_iter_walker :: pyval
  sw_model_walker :: pyval
  sw_load_model :: pyval
  sw_p1 :: pyval
  sw_p2 :: pyval

text \<open>
  The calls that leave the dispatcher, in order: the import of a saved model and the
  assignment of its goal points, the construction of a builder, and the calls that
  reach the devices (\<open>build\<close>, the model walker's \<open>step\<close>, the iterative walker's
  \<open>step\<close> with the name of its keyword argument).
\<close>

datatype callout =
    Import pyval
  | SetGoal pyval pyval pyval
  | NewBuilder pyval
  | Build pyval
  | ModelStep pyval
  | IterStep pyval string

text \<open>
  The state: the dispatcher, the centroid pair that the monitor observes, and the calls
  made so far.
\<close>

record sky_state =
  sky :: skywalker
  current_centroids :: "real \<times> real"
  calls :: "callout list"

text \<open>What the collaborators return or raise is a parameter of the model.\<close>

record ext =
  import_model :: "pyval \<Rightarrow> error + pyval"
  new_builder :: "pyval \<Rightarrow> pyval"
  build :: "pyval \<Rightarrow> error + pyval"
  model_step :: "pyval \<Rightarrow> error + unit"
  iter_step :: "pyval \<Rightarrow> string \<Rightarrow> error + unit"

type_synonym 'a sprog = "sky_state \<Rightarrow> (error + 'a) \<times> sky_state"

definition sbind :: "'a sprog \<Rightarrow> ('a \<Rightarrow> 'b sprog) \<Rightarrow> 'b sprog" where
  "sbind m f s = (case m s of (Inl e, s') \<Rightarrow> (Inl e, s') | (Inr v, s') \<Rightarrow> f v s')"

definition callout :: "callout \<Rightarrow> error + 'a \<Rightarrow> 'a sprog" where
  "callout c r s = (r, s\<lparr>calls := calls s @ [c]\<rparr>)"

text \<open>
  The methods of \<open>Skywalker\<close> read a name \<open>kwargs\<close> that is neither a parameter nor
  a local of theirs, so Python looks it up among the globals of the module, and raises
  \<open>NameError\<close> when it is not there. The global binding is a parameter of the model:
  \<open>None\<close> when the module binds no such name, \<open>Some kw\<close> for a dictionary
  \<open>kw\<close>. skywalker.py binds the names of its imports and \<open>Skywalker\<close>, and no
  \<open>kwargs\<close>.
\<close>

type_synonym binding = "(string \<rightharpoonup> pyval) option"

definition module_kwargs :: binding where
  "module_kwargs = None"

text \<open>
  A statement \<open>self.attr = kwargs.get(key, default)\<close>: the right-hand side is
  evaluated first.
\<close>

definition assign_kw :: "binding \<Rightarrow> string \<Rightarrow> (skywalker \<Rightarrow> pyval) \<Rightarrow> (pyval \<Rightarrow> skywalker \<Rightarrow> skywalker) \<Rightarrow> unit sprog" where
  "assign_kw G key dflt upd s =
     (case G of
        None \<Rightarrow> (Inl NameError, s)
      | Some kw \<Rightarrow>
          (Inr (), s\<lparr>sky := upd (case kw key of None \<Rightarrow> dflt (sky s) | Some v \<Rightarrow> v) (sky s)\<rparr>))"

text \<open>\<open>_load\<close> with \<open>_set_goal_points\<close>.\<close>

definition load :: "ext \<Rightarrow> pyval \<Rightarrow> pyval sprog" where
  "load E saved_model =
     sbind (callout (Import saved_model) (import_model E saved_model)) (\<lambda>model s.
     callout (SetGoal model (sw_p1 (sky s)) (sw_p2 (sky s))) (Inr model) s)"

text \<open>
  The model walker is created by a call of \<open>ModelWalker\<close>, a name that skywalker.py
  neither imports nor defines.
\<close>

definition ensure_model_walker :: "unit sprog" where
  "ensure_model_walker s =
     (if sw_model_walker (sky s) = PNone then (Inl NameError, s) else (Inr (), s))"

text \<open>\<open>_modelwalk\<close>\<close>

definition modelwalk :: "binding \<Rightarrow> ext \<Rightarrow> unit sprog" where
  "modelwalk G E =
     sbind (assign_kw G ''model'' sw_model (\<lambda>v w. w\<lparr>sw_model := v\<rparr>)) (\<lambda>_.
     sbind (assign_kw G ''load_model'' sw_load_model (\<lambda>v w. w\<lparr>sw_load_model := v\<rparr>)) (\<lambda>_.
     sbind (assign_kw G ''model_walker'' sw_model_walker (\<lambda>v w. w\<lparr>sw_model_walker := v\<rparr>)) (\<lambda>_.
     sbind (\<lambda>s.
        if truthy (sw_load_model (sky s)) then
          sbind (load E (sw_load_model (sky s)))
            (\<lambda>m s'. (Inr (), s'\<lparr>sky := (sky s')\<lparr>sw_model := m\<rparr>\<rparr>)) s
        else if sw_model (sky s) = PNone then (Inl CNCException, s)
        else (Inr (), s)) (\<lambda>_.
     sbind ensure_model_walker (\<lambda>_ s.
     callout (ModelStep (sw_model_walker (sky s))) (model_step E (sw_model_walker (sky s))) s)))))"

text \<open>\<open>_modelbuild\<close>\<close>

definition modelbuild :: "binding \<Rightarrow> ext \<Rightarrow> unit sprog" where
  "modelbuild G E =
     sbind (assign_kw G ''model_builder'' sw_model_builder (\<lambda>v w. w\<lparr>sw_model_builder := v\<rparr>)) (\<lambda>_.
     sbind (\<lambda>s.
        if sw_model_builder (sky s) = PNone then
          callout (NewBuilder (sw_monitor (sky s))) (Inr ())
            (s\<lparr>sky := (sky s)\<lparr>sw_model_builder := new_builder E (sw_monitor (sky s))\<rparr>\<rparr>)
        else (Inr (), s)) (\<lambda>_.
     sbind (\<lambda>s. callout (Build (sw_model_builder (sky s))) (build E (sw_model_builder (sky s))) s) (\<lambda>m.
     sbind (\<lambda>s. (Inr (), s\<lparr>sky := (sky s)\<lparr>sw_model := m\<rparr>\<rparr>)) (\<lambda>_.
     sbind ensure_model_walker (\<lambda>_ s.
     callout (ModelStep (sw_model_walker (sky s))) (model_step E (sw_model_walker (sky s))) s)))))"

text \<open>
  The condition of the loop of \<open>_iterwalk\<close> is \<open>not self._converged\<close>: the
  attribute, a bound method, is not called.
\<close>

definition converged_attr :: "skywalker \<Rightarrow> pyval" where
  "converged_attr w = PMethod ''_converged''"

text \<open>
  The body of the loop: \<open>step(mirror_1=True)\<close>, then \<open>step(mirror_2=True)\<close>, on
  the iterative walker.
\<close>

definition iterwalk_body :: "ext \<Rightarrow> unit sprog" where
  "iterwalk_body E =
     sbind (\<lambda>s. callout (IterStep (sw_iter_walker (sky s)) ''mirror_1'')
                   (iter_step E (sw_iter_walker (sky s)) ''mirror_1'') s) (\<lambda>_ s.
     callout (IterStep (sw_iter_walker (sky s)) ''mirror_2'')
       (iter_step E (sw_iter_walker (sky s)) ''mirror_2'') s)"

text \<open>
  The \<open>while\<close> loop has no bound: \<open>None\<close> is a loop that does not return.
\<close>

partial_function (option) iterwalk_loop :: "ext \<Rightarrow> sky_state \<Rightarrow> ((error + unit) \<times> sky_state) option" where
  "iterwalk_loop E s =
     (if \<not> truthy (converged_attr (sky s)) then
        (case iterwalk_body E s of
           (Inl e, s') \<Rightarrow> Some (Inl e, s')
         | (Inr u, s') \<Rightarrow> iterwalk_loop E s')
      else Some (Inr (), s))"

text \<open>
  \<open>_iterwalk\<close>: without an iterative walker it calls \<open>IterWalker\<close>, a name that
  skywalker.py neither imports nor defines.
\<close>

definition iterwalk :: "binding \<Rightarrow> ext \<Rightarrow> sky_state \<Rightarrow> ((error + unit) \<times> sky_state) option" where
  "iterwalk G E s =
     (case assign_kw G ''iter_walker'' sw_iter_walker (\<lambda>v w. w\<lparr>sw_iter_walker := v\<rparr>) s of
        (Inl e, s') \<Rightarrow> Some (Inl e, s')
      | (Inr u, s') \<Rightarrow>
          if sw_iter_walker (sky s') = PNone then Some (Inl NameError, s')
          else iterwalk_loop E s')"

text \<open>The seven assignments that open \<open>walk\<close>.\<close>

definition walk_kwargs :: "binding \<Rightarrow> unit sprog" where
  "walk_kwargs G =
     sbind (assign_kw G ''p1'' (\<lambda>w. PInt 0) (\<lambda>v w. w\<lparr>sw_p1 := v\<rparr>)) (\<lambda>_.
     sbind (assign_kw G ''p2'' (\<lambda>w. PInt 0) (\<lambda>v w. w\<lparr>sw_p2 := v\<rparr>)) (\<lambda>_.
     sbind (assign_kw G ''model'' sw_model (\<lambda>v w. w\<lparr>sw_model := v\<rparr>)) (\<lambda>_.
     sbind (assign_kw G ''load_model'' sw_load_model (\<lambda>v w. w\<lparr>sw_load_model := v\<rparr>)) (\<lambda>_.
     sbind (assign_kw G ''iter_walker'' sw_iter_walker (\<lambda>v w. w\<lparr>sw_iter_walker := v\<rparr>)) (\<lambda>_.
     sbind (assign_kw G ''model_walker'' sw_model_walker (\<lambda>v w. w\<lparr>sw_model_walker := v\<rparr>)) (\<lambda>_.
     assign_kw G ''model_builder'' sw_model_builder (\<lambda>v w. w\<lparr>sw_model_builder := v\<rparr>)))))))"

text \<open>\<open>walk(mode)\<close>\<close>

definition walk :: "binding \<Rightarrow> ext \<Rightarrow> pyval \<Rightarrow> sky_state \<Rightarrow> ((error + unit) \<times> sky_state) option" where
  "walk G E mode s =
     (case walk_kwargs G s of
        (Inl e, s') \<Rightarrow> Some (Inl e, s')
      | (Inr u, s') \<Rightarrow>
          if mode = PStr ''iter'' then iterwalk G E s'
          else if mode = PStr ''model'' then
            Some (sbind (assign_kw G ''load_model'' sw_load_model (\<lambda>v w. w\<lparr>sw_load_model := v\<rparr>))
                    (\<lambda>_. modelwalk G E) s')
          else if mode = PStr ''build'' then Some (modelbuild G E s')
          else if mode = PStr ''auto'' then Some (Inl NotImplementedError, s')
          else Some (Inl CNCException, s'))"

section \<open>Notions used in the statements\<close>

text \<open>
  The accesses of one \<open>_alpha_1_calc\<close> and of one \<open>_alpha_2_calc\<close> that runs to its
  call of the solve, and of one iteration of the loop of \<open>align\<close>.
\<close>

definition reads_1 :: "event list" where
  "reads_1 = [Get Source ''x'', Get Source ''xp'', Get Mirror1 ''z'', Get Mirror2 ''z'',
     Get Imager1 ''z'', Get Mirror1 ''x'', Get Mirror2 ''x'',
     Get Imager1 ''x'', Get Imager1 ''image_xsz'', Get Imager1 ''mppix'']"

definition reads_2 :: "event list" where
  "reads_2 = [Get Source ''x'', Get Source ''xp'', Get Mirror1 ''z'', Get Mirror2 ''z'',
     Get Imager2 ''z'', Get Mirror1 ''x'', Get Mirror2 ''x'',
     Get Imager2 ''x'', Get Imager2 ''image_xsz'', Get Imager2 ''mppix'']"

definition iteration_io :: "event list" where
  "iteration_io = reads_1 @ reads_2"

text \<open>
  The target positions \<open>goal_x_1\<close> and \<open>goal_x_2\<close> for the pixel \<open>p\<close> on the
  devices \<open>d\<close>, and the solve of \<open>_alpha_1_calc\<close> (\<open>_alpha_2_calc\<close>) on the
  devices \<open>d\<close>, the walker \<open>w\<close> and the target pixel \<open>p\<close>.
\<close>

definition goal_1 :: "devices \<Rightarrow> real \<Rightarrow> fl" where
  "goal_1 d p =
     Fin (img_x (imager_1 d))
     + (Fin p - fin (img_image_xsz (imager_1 d) / 2) + Fin 1) * Fin (img_mppix (imager_1 d))"

definition goal_2 :: "devices \<Rightarrow> real \<Rightarrow> fl" where
  "goal_2 d p =
     Fin (img_x (imager_2 d))
     + (Fin p - fin (img_image_xsz (imager_2 d) / 2) + Fin 1) * Fin (img_mppix (imager_2 d))"

definition solve_1 :: "lib \<Rightarrow> devices \<Rightarrow> iterwalker \<Rightarrow> real \<Rightarrow> error + angle" where
  "solve_1 L d w p =
     alpha1 L (src_x (source d)) (src_xp (source d)) (iw_alpha_2 w)
       (mir_z (mirror_1 d)) (mir_z (mirror_2 d)) (img_z (imager_1 d))
       (mir_x (mirror_1 d)) (mir_x (mirror_2 d)) (goal_1 d p) (iw_tan w)"

definition solve_2 :: "lib \<Rightarrow> devices \<Rightarrow> iterwalker \<Rightarrow> real \<Rightarrow> error + angle" where
  "solve_2 L d w p =
     alpha2 L (src_x (source d)) (src_xp (source d)) (iw_alpha_1 w)
       (mir_z (mirror_1 d)) (mir_z (mirror_2 d)) (img_z (imager_2 d))
       (mir_x (mirror_1 d)) (mir_x (mirror_2 d)) (goal_2 d p) (iw_tan w)"

text \<open>
  One refinement of the pair of estimates on fixed devices: \<open>alpha1\<close> is solved with
  the current estimate of \<open>alpha2\<close> and becomes the estimate; then \<open>alpha2\<close> is
  solved with that new estimate of \<open>alpha1\<close>. \<open>refine_n\<close> is \<open>n\<close> refinements
  in a row, stopping at the first exception.
\<close>

definition refine :: "lib \<Rightarrow> devices \<Rightarrow> iterwalker \<Rightarrow> error + iterwalker" where
  "refine L d w =
     (case iw_p1 w of
        None \<Rightarrow> Inl TypeError
      | Some p \<Rightarrow>
          (case solve_1 L d w p of
             Inl e \<Rightarrow> Inl e
           | Inr a1 \<Rightarrow>
               (case iw_p2 w of
                  None \<Rightarrow> Inl TypeError
                | Some q \<Rightarrow>
                    (case solve_2 L d (w\<lparr>iw_alpha_1 := a1\<rparr>) q of
                       Inl e \<Rightarrow> Inl e
                     | Inr a2 \<Rightarrow> Inr (w\<lparr>iw_alpha_1 := a1, iw_alpha_2 := a2\<rparr>)))))"

primrec refine_n :: "lib \<Rightarrow> devices \<Rightarrow> nat \<Rightarrow> iterwalker \<Rightarrow> error + iterwalker" where
  "refine_n L d 0 w = Inr w"
| "refine_n L d (Suc n) w =
     (case refine L d w of Inl e \<Rightarrow> Inl e | Inr w' \<Rightarrow> refine_n L d n w')"

text \<open>
  A state \<open>s'\<close> that differs from \<open>s\<close> by reads of the devices and by new estimates
  only.
\<close>

definition reads_only :: "state \<Rightarrow> state \<Rightarrow> bool" where
  "reads_only s s' =
     (\<exists>evs. hw s' = (hw s)\<lparr>io := io (hw s) @ evs\<rparr> \<and> filter is_put evs = []
        \<and> iw_p1 (self s') = iw_p1 (self s) \<and> iw_p2 (self s') = iw_p2 (self s)
        \<and> iw_tan (self s') = iw_tan (self s) \<and> iw_max_n (self s') = iw_max_n (self s))"

text \<open>The state after the first two statements of \<open>align\<close>.\<close>

definition set_targets :: "real option \<Rightarrow> real option \<Rightarrow> state \<Rightarrow> state" where
  "set_targets p1 p2 s =
     s\<lparr>self := (self s)\<lparr>iw_p1 := (if p1 \<noteq> None then p1 else iw_p1 (self s)),
                          iw_p2 := (if p2 \<noteq> None then p2 else iw_p2 (self s))\<rparr>\<rparr>"

text \<open>The state after \<open>_move_mirrors(self._alpha_1, self._alpha_2)\<close>.\<close>

definition commit :: "state \<Rightarrow> state" where
  "commit s =
     log [Put Mirror1 ''alpha'' (iw_alpha_1 (self s)), Put Mirror2 ''alpha'' (iw_alpha_2 (self s))]
       (s\<lparr>hw := (hw s)\<lparr>mirror_1 := (mirror_1 (hw s))\<lparr>mir_alpha := iw_alpha_1 (self s)\<rparr>,
                        mirror_2 := (mirror_2 (hw s))\<lparr>mir_alpha := iw_alpha_2 (self s)\<rparr>\<rparr>\<rparr>)"

text \<open>
  No square of a closed-form solve overflows on the devices \<open>d\<close> with target pixels
  \<open>p\<close>, \<open>q\<close> and the first companion angle \<open>a2\<close> (the later ones are
  \<open>numpy.float64\<close>, whose squares do not raise).
\<close>

definition overflow_free :: "lib \<Rightarrow> devices \<Rightarrow> real \<Rightarrow> real \<Rightarrow> angle \<Rightarrow> bool" where
  "overflow_free L d p q a2 =
     (\<not> sq_raises L (src_x (source d)) \<and> \<not> sq_raises L (src_xp (source d))
      \<and> \<not> sq_raises L (mir_z (mirror_1 d)) \<and> \<not> sq_raises L (mir_z (mirror_2 d))
      \<and> \<not> sq_raises L (img_z (imager_1 d)) \<and> \<not> sq_raises L (img_z (imager_2 d))
      \<and> \<not> sq_raises L (mir_x (mirror_1 d)) \<and> \<not> sq_raises L (mir_x (mirror_2 d))
      \<and> \<not> fl_sq_raises L (goal_1 d p) \<and> \<not> fl_sq_raises L (goal_2 d q)
      \<and> (case a2 of PyNum a \<Rightarrow> \<not> sq_raises L a | _ \<Rightarrow> True))"

text \<open>
  A walker on which no closed-form solve can raise: \<open>tan\<close> is \<open>False\<close>, both target
  pixels are set, the estimate that the first solve reads is not \<open>None\<close>, and no
  square overflows.
\<close>

definition closed_form_ready :: "lib \<Rightarrow> state \<Rightarrow> bool" where
  "closed_form_ready L s =
     (iw_tan (self s) = PBool False \<and> iw_alpha_2 (self s) \<noteq> NoneVal
      \<and> (case iw_p1 (self s) of
            None \<Rightarrow> False
          | Some p \<Rightarrow>
              (case iw_p2 (self s) of
                 None \<Rightarrow> False
               | Some q \<Rightarrow> overflow_free L (hw s) p q (iw_alpha_2 (self s)))))"




subsection \<open>A concrete relay\<close>

text \<open>
  Source on the axis, mirrors at \<open>z = 1\<close> and \<open>z = 2\<close> with pitch 0, imagers of four
  pixels of size 1 at \<open>z = 3\<close> and \<open>z = 4\<close>; target pixel 0 on both, which is the
  physical position \<open>-1\<close>. The walker is constructed on it with \<open>max_n = 1\<close>.
\<close>

definition ex_devices :: devices where
  "ex_devices =
     \<lparr>source = \<lparr>src_x = 0, src_xp = 0\<rparr>,
      mirror_1 = \<lparr>mir_x = 0, mir_z = 1, mir_alpha = Num 0\<rparr>,
      mirror_2 = \<lparr>mir_x = 0, mir_z = 2, mir_alpha = Num 0\<rparr>,
      imager_1 = \<lparr>img_x = 0, img_z = 3, img_image_xsz = 4, img_mppix = 1\<rparr>,
      imager_2 = \<lparr>img_x = 0, img_z = 4, img_image_xsz = 4, img_mppix = 1\<rparr>,
      io = []\<rparr>"

definition ex_kwargs :: iw_kwargs where
  "ex_kwargs = \<lparr>kw_p1 = Some 0, kw_p2 = Some 0, kw_tan = None, kw_max_n = Some 1\<rparr>"

definition ex_state :: state where
  "ex_state = IterWalker_init ex_kwargs ex_devices"

text \<open>The same walker with \<open>max_n = 2\<close>.\<close>

definition ex_state_2 :: state where
  "ex_state_2 = ex_state\<lparr>self := (self ex_state)\<lparr>iw_max_n := 2\<rparr>\<rparr>"

text \<open>The walker after \<open>align()\<close>, which moves nothing.\<close>

definition ex_state_aligned :: state where
  "ex_state_aligned = snd (align ex_lib None None (PBool False) ex_state)"

subsection \<open>A concrete dispatcher\<close>

text \<open>
  Collaborators whose \<open>step\<close> succeeds and whose import and build fail; a dispatcher
  with an iterative walker, no model, no model to load, targets \<open>(0, 0)\<close>, while the
  monitor observes the centroids \<open>(5, 7)\<close>.
\<close>

definition ex_ext :: ext where
  "ex_ext = \<lparr>import_model = (\<lambda>v. Inl ExternalError), new_builder = (\<lambda>v. PObj 0),
              build = (\<lambda>v. Inl ExternalError), model_step = (\<lambda>v. Inr ()),
              iter_step = (\<lambda>v k. Inr ())\<rparr>"

definition ex_sky :: sky_state where
  "ex_sky =
     \<lparr>sky = \<lparr>sw_monitor = PObj 1, sw_walker = PObj 2, sw_model_builder = PNone,
              sw_model = PNone, sw_iter_walker = PObj 3, sw_model_walker = PNone,
              sw_load_model = PNone, sw_p1 = PInt 0, sw_p2 = PInt 0\<rparr>,
      current_centroids = (5, 7),
      calls = []\<rparr>"

section \<open>Floats: values that are represented exactly\<close>

lemma rne_of_int: "rne (of_int m) = m"
  by (simp add: rne_def)

lemma quantum_pos: "0 < quantum x"
  by (simp add: quantum_def)

lemma round64_exact:
  assumes m: "x * 16 = of_int m" and b: "\<bar>x\<bar> < 2 ^ 48"
  shows "round64 x = x"
proof (cases "x = 0")
  case True
  then show ?thesis by (simp add: round64_def)
next
  case False
  define e where "e = max \<lfloor>Transcendental.log 2 \<bar>x\<bar>\<rfloor> (- 1022) - 52"
  have q: "quantum x = 2 powr of_int e" by (simp add: quantum_def e_def)
  have "Transcendental.log 2 \<bar>x\<bar> < 48" using b False by (simp add: log_less_iff)
  then have "\<lfloor>Transcendental.log 2 \<bar>x\<bar>\<rfloor> \<le> 47" by linarith
  then have e: "e \<le> - 5" by (simp add: e_def)
  define k where "k = nat (- e - 4)"
  have k: "of_int e = - (real k + 4)" using e by (simp add: k_def)
  have "2 powr (- (real k + 4)) = inverse (2 powr (real k + 4))" by (rule powr_minus)
  then have "x / quantum x = x * 2 powr (real k + 4)" unfolding q k by (simp add: divide_inverse)
  also have "\<dots> = x * (2 ^ k * 2 ^ 4)" by (simp add: powr_add powr_realpow)
  also have "\<dots> = of_int m * 2 ^ k" using m by simp
  also have "\<dots> = of_int (m * 2 ^ k)" by simp
  finally have i: "x / quantum x = of_int (m * 2 ^ k)" .
  have "round64 x = of_int (m * 2 ^ k) * quantum x"
    using False by (simp add: round64_def i rne_of_int del: of_int_mult of_int_power)
  also have "\<dots> = x / quantum x * quantum x" by (simp only: i)
  also have "\<dots> = x" using quantum_pos[of x] by simp
  finally show ?thesis .
qed

lemma fin_exact: "x * 16 \<in> \<int> \<Longrightarrow> \<bar>x\<bar> < 2 ^ 48 \<Longrightarrow> fin x = Fin x"
proof -
  assume a: "x * 16 \<in> \<int>" and b: "\<bar>x\<bar> < 2 ^ 48"
  from a obtain m where m: "x * 16 = of_int m" by (auto elim: Ints_cases)
  have r: "round64 x = x" using m b by (rule round64_exact)
  have "(2::real) ^ 48 \<le> fmax" by (simp add: fmax_def)
  with b have "\<bar>x\<bar> \<le> fmax" by linarith
  then show ?thesis by (auto simp: fin_def r)
qed

section \<open>The walker: what one calculation and the loop do\<close>

lemma log_log: "log xs (log ys s) = log (ys @ xs) s"
  by (simp add: log_def)

lemma hw_log: "hw (log xs s) = (hw s)\<lparr>io := io (hw s) @ xs\<rparr>"
  by (simp add: log_def)

lemma self_log: "self (log xs s) = self s"
  by (simp add: log_def)

lemma log_self_update: "log xs (s\<lparr>self := w\<rparr>) = (log xs s)\<lparr>self := w\<rparr>"
  by (simp add: log_def)

lemma alpha_1_calc_Some:
  "iw_p1 (self s) = Some p \<Longrightarrow> alpha_1_calc L s = (solve_1 L (hw s) (self s) p, log reads_1 s)"
  by (simp add: alpha_1_calc_def goal_x_1_def pbind_def getattr_def getself_def call_def ret_def
      solve_1_def goal_1_def reads_1_def log_log hw_log self_log)

lemma alpha_1_calc_None:
  "iw_p1 (self s) = None \<Longrightarrow> alpha_1_calc L s = (Inl TypeError, log (butlast reads_1) s)"
  by (simp add: alpha_1_calc_def goal_x_1_def pbind_def getattr_def getself_def call_def ret_def raise_def
      reads_1_def log_log hw_log self_log)

lemma alpha_2_calc_Some:
  "iw_p2 (self s) = Some p \<Longrightarrow> alpha_2_calc L s = (solve_2 L (hw s) (self s) p, log reads_2 s)"
  by (simp add: alpha_2_calc_def goal_x_2_def pbind_def getattr_def getself_def call_def ret_def
      solve_2_def goal_2_def reads_2_def log_log hw_log self_log)

lemma alpha_2_calc_None:
  "iw_p2 (self s) = None \<Longrightarrow> alpha_2_calc L s = (Inl TypeError, log (butlast reads_2) s)"
  by (simp add: alpha_2_calc_def goal_x_2_def pbind_def getattr_def getself_def call_def ret_def raise_def
      reads_2_def log_log hw_log self_log)

lemma alpha_1_calc_eq:
  "alpha_1_calc L s =
     (case iw_p1 (self s) of
        None \<Rightarrow> (Inl TypeError, log (butlast reads_1) s)
      | Some p \<Rightarrow> (solve_1 L (hw s) (self s) p, log reads_1 s))"
  by (cases "iw_p1 (self s)") (simp_all add: alpha_1_calc_None alpha_1_calc_Some)

lemma alpha_2_calc_eq:
  "alpha_2_calc L s =
     (case iw_p2 (self s) of
        None \<Rightarrow> (Inl TypeError, log (butlast reads_2) s)
      | Some p \<Rightarrow> (solve_2 L (hw s) (self s) p, log reads_2 s))"
  by (cases "iw_p2 (self s)") (simp_all add: alpha_2_calc_None alpha_2_calc_Some)

lemma reads_only_refl: "reads_only s s"
  by (auto simp: reads_only_def intro: exI[of _ "[]"])

lemma reads_only_trans: "reads_only s s' \<Longrightarrow> reads_only s' s'' \<Longrightarrow> reads_only s s''"
  unfolding reads_only_def
  apply (elim exE conjE)
  subgoal for evs evs'
    by (rule exI[of _ "evs @ evs'"]) simp
  done

lemma reads_only_log: "filter is_put evs = [] \<Longrightarrow> reads_only s (log evs s)"
  unfolding reads_only_def by (rule exI[of _ evs]) (simp add: hw_log self_log)

lemma reads_only_alpha_1_calc: "alpha_1_calc L s = (r, s') \<Longrightarrow> reads_only s s'"
  by (cases "iw_p1 (self s)")
     (auto simp: alpha_1_calc_None alpha_1_calc_Some reads_1_def intro!: reads_only_log)

lemma reads_only_alpha_2_calc: "alpha_2_calc L s = (r, s') \<Longrightarrow> reads_only s s'"
  by (cases "iw_p2 (self s)")
     (auto simp: alpha_2_calc_None alpha_2_calc_Some reads_2_def intro!: reads_only_log)

lemma reads_only_set_alpha_1: "reads_only s (s\<lparr>self := (self s)\<lparr>iw_alpha_1 := a\<rparr>\<rparr>)"
  by (auto simp: reads_only_def intro: exI[of _ "[]"])

lemma reads_only_set_alpha_2: "reads_only s (s\<lparr>self := (self s)\<lparr>iw_alpha_2 := a\<rparr>\<rparr>)"
  by (auto simp: reads_only_def intro: exI[of _ "[]"])

lemma reads_only_hw:
  "reads_only s s' \<Longrightarrow> mirror_1 (hw s') = mirror_1 (hw s) \<and> mirror_2 (hw s') = mirror_2 (hw s)
     \<and> filter is_put (io (hw s')) = filter is_put (io (hw s))"
  by (auto simp: reads_only_def)

lemma align_loop_reads_only: "align_loop L n s = (r, s') \<Longrightarrow> reads_only s s'"
proof (induction n arbitrary: s r s')
  case 0
  then show ?case by (simp add: ret_def reads_only_refl)
next
  case (Suc n)
  obtain r1 s1 where c1: "alpha_1_calc L s = (r1, s1)" by (cases "alpha_1_calc L s")
  have f1: "reads_only s s1" using c1 by (rule reads_only_alpha_1_calc)
  show ?case
  proof (cases r1)
    case (Inl e)
    with Suc.prems c1 f1 show ?thesis by (simp add: pbind_def)
  next
    case (Inr a1)
    let ?s2 = "s1\<lparr>self := (self s1)\<lparr>iw_alpha_1 := a1\<rparr>\<rparr>"
    have f2: "reads_only s ?s2" using f1 reads_only_set_alpha_1 by (rule reads_only_trans)
    obtain r3 s3 where c3: "alpha_2_calc L ?s2 = (r3, s3)" by (cases "alpha_2_calc L ?s2")
    have f3: "reads_only s s3" using f2 reads_only_alpha_2_calc[OF c3] by (rule reads_only_trans)
    show ?thesis
    proof (cases r3)
      case (Inl e)
      with Suc.prems c1 c3 Inr f3 show ?thesis by (simp add: pbind_def setself_def)
    next
      case (Inr a2)
      let ?s4 = "s3\<lparr>self := (self s3)\<lparr>iw_alpha_2 := a2\<rparr>\<rparr>"
      have f4: "reads_only s ?s4" using f3 reads_only_set_alpha_2 by (rule reads_only_trans)
      have "align_loop L n ?s4 = (r, s')"
        using Suc.prems c1 c3 \<open>r1 = Inr a1\<close> Inr by (simp add: pbind_def setself_def)
      then have "reads_only ?s4 s'" by (rule Suc.IH)
      with f4 show ?thesis by (rule reads_only_trans)
    qed
  qed
qed

lemma move_mirrors_commit:
  "move_mirrors (iw_alpha_1 (self s)) (iw_alpha_2 (self s)) s = (Inr (), commit s)"
  by (simp add: move_mirrors_def pbind_def set_alpha_def commit_def log_def)

lemma self_commit: "self (commit s) = self s"
  by (simp add: commit_def log_def)

lemma commit_hw:
  "hw (commit s) = (hw s)\<lparr>mirror_1 := (mirror_1 (hw s))\<lparr>mir_alpha := iw_alpha_1 (self s)\<rparr>,
                        mirror_2 := (mirror_2 (hw s))\<lparr>mir_alpha := iw_alpha_2 (self s)\<rparr>,
                        io := io (hw s) @ [Put Mirror1 ''alpha'' (iw_alpha_1 (self s)), Put Mirror2 ''alpha'' (iw_alpha_2 (self s))]\<rparr>"
  by (simp add: commit_def log_def)

lemma hw_set_targets: "hw (set_targets p1 p2 s) = hw s"
  by (simp add: set_targets_def)

lemma self_set_targets:
  "iw_alpha_1 (self (set_targets p1 p2 s)) = iw_alpha_1 (self s)"
  "iw_alpha_2 (self (set_targets p1 p2 s)) = iw_alpha_2 (self s)"
  "iw_tan (self (set_targets p1 p2 s)) = iw_tan (self s)"
  "iw_max_n (self (set_targets p1 p2 s)) = iw_max_n (self s)"
  by (simp_all add: set_targets_def)

lemma set_targets_None: "set_targets None None s = s"
  by (simp add: set_targets_def)

lemma align_unfold:
  "align L p1 p2 move s =
     (case align_loop L (nat (iw_max_n (self s))) (set_targets p1 p2 s) of
        (Inl e, s2) \<Rightarrow> (Inl e, s2)
      | (Inr u, s2) \<Rightarrow>
          (Inr (iw_alpha_1 (self s2), iw_alpha_2 (self s2)),
           if move = PBool True then commit s2 else s2))"
proof -
  have t: "pbind (if p1 \<noteq> None then setself (\<lambda>w. w\<lparr>iw_p1 := p1\<rparr>) else ret ()) (\<lambda>_.
           pbind (if p2 \<noteq> None then setself (\<lambda>w. w\<lparr>iw_p2 := p2\<rparr>) else ret ()) f) s
           = f () (set_targets p1 p2 s)" for f :: "unit \<Rightarrow> (angle \<times> angle) prog"
    by (simp add: pbind_def setself_def ret_def set_targets_def)
  have m: "iw_max_n (self (set_targets p1 p2 s)) = iw_max_n (self s)"
    by (simp add: set_targets_def)
  show ?thesis
    unfolding align_def t
    by (cases "align_loop L (nat (iw_max_n (self s))) (set_targets p1 p2 s)")
       (auto simp: pbind_def getself_def ret_def m move_mirrors_commit self_commit split: sum.splits)
qed

lemma align_loop_io:
  "align_loop L n s = (Inr u, s') \<Longrightarrow> io (hw s') = io (hw s) @ concat (replicate n iteration_io)"
proof (induction n arbitrary: s)
  case 0
  then show ?case by (simp add: ret_def)
next
  case (Suc n)
  obtain r1 s1 where c1: "alpha_1_calc L s = (r1, s1)" by (cases "alpha_1_calc L s")
  from Suc.prems c1 obtain a1 where r1: "r1 = Inr a1"
    by (cases r1) (simp_all add: pbind_def)
  from c1 r1 obtain p where p: "iw_p1 (self s) = Some p"
    by (cases "iw_p1 (self s)") (simp_all add: alpha_1_calc_None)
  have s1: "s1 = log reads_1 s" using c1 p by (simp add: alpha_1_calc_Some)
  let ?s2 = "s1\<lparr>self := (self s1)\<lparr>iw_alpha_1 := a1\<rparr>\<rparr>"
  obtain r3 s3 where c3: "alpha_2_calc L ?s2 = (r3, s3)" by (cases "alpha_2_calc L ?s2")
  from Suc.prems c1 r1 c3 obtain a2 where r3: "r3 = Inr a2"
    by (cases r3) (simp_all add: pbind_def setself_def)
  from c3 r3 obtain q where q: "iw_p2 (self ?s2) = Some q"
    by (cases "iw_p2 (self ?s2)") (simp_all add: alpha_2_calc_None)
  have s3: "s3 = log reads_2 ?s2" using c3 q by (simp add: alpha_2_calc_Some)
  let ?s4 = "s3\<lparr>self := (self s3)\<lparr>iw_alpha_2 := a2\<rparr>\<rparr>"
  have "align_loop L n ?s4 = (Inr u, s')"
    using Suc.prems c1 c3 r1 r3 by (simp add: pbind_def setself_def)
  then have "io (hw s') = io (hw ?s4) @ concat (replicate n iteration_io)" by (rule Suc.IH)
  moreover have "io (hw ?s4) = io (hw s) @ iteration_io"
    by (simp add: s3 s1 hw_log iteration_io_def)
  ultimately show ?case by simp
qed

subsection \<open>The loop of \<open>align\<close> is the iterated refinement\<close>

lemma solve_1_io: "solve_1 L (d\<lparr>io := evs\<rparr>) w p = solve_1 L d w p"
  by (simp add: solve_1_def goal_1_def)

lemma solve_2_io: "solve_2 L (d\<lparr>io := evs\<rparr>) w p = solve_2 L d w p"
  by (simp add: solve_2_def goal_2_def)

lemma refine_io: "refine L (d\<lparr>io := evs\<rparr>) w = refine L d w"
  by (simp add: refine_def solve_1_io solve_2_io split: option.split sum.split)

lemma refine_n_io: "refine_n L (d\<lparr>io := evs\<rparr>) n w = refine_n L d n w"
  by (induction n arbitrary: w) (simp_all add: refine_io split: sum.split)

lemma align_loop_refine:
  "align_loop L n s = (r, s') \<Longrightarrow>
     (case refine_n L (hw s) n (self s) of
        Inl e \<Rightarrow> r = Inl e
      | Inr w \<Rightarrow> r = Inr () \<and> self s' = w)"
proof (induction n arbitrary: s)
  case 0
  then show ?case by (auto simp: ret_def)
next
  case (Suc n)
  show ?case
  proof (cases "iw_p1 (self s)")
    case None
    with Suc.prems show ?thesis
      by (auto simp: pbind_def alpha_1_calc_None refine_def)
  next
    case (Some p)
    note p = this
    show ?thesis
    proof (cases "solve_1 L (hw s) (self s) p")
      case (Inl e)
      with Suc.prems p show ?thesis
        by (auto simp: pbind_def alpha_1_calc_Some refine_def)
    next
      case (Inr a1)
      note a1 = this
      let ?s2 = "(log reads_1 s)\<lparr>self := (self s)\<lparr>iw_alpha_1 := a1\<rparr>\<rparr>"
      have l2: "align_loop L (Suc n) s =
          pbind (alpha_2_calc L) (\<lambda>a2.
          pbind (setself (\<lambda>w. w\<lparr>iw_alpha_2 := a2\<rparr>)) (\<lambda>_. align_loop L n)) ?s2"
        using p a1 by (simp add: pbind_def alpha_1_calc_Some setself_def self_log)
      have h2: "hw ?s2 = (hw s)\<lparr>io := io (hw s) @ reads_1\<rparr>" by (simp add: hw_log)
      show ?thesis
      proof (cases "iw_p2 (self s)")
        case None
        then have "alpha_2_calc L ?s2 = (Inl TypeError, log (butlast reads_2) ?s2)"
          by (simp add: alpha_2_calc_None)
        with Suc.prems l2 p a1 None show ?thesis
          by (auto simp: pbind_def refine_def)
      next
        case (Some q)
        note q = this
        then have q2: "iw_p2 (self ?s2) = Some q" by simp
        have c2: "alpha_2_calc L ?s2 = (solve_2 L (hw s) ((self s)\<lparr>iw_alpha_1 := a1\<rparr>) q, log reads_2 ?s2)"
          unfolding alpha_2_calc_Some[OF q2] h2 solve_2_io by simp
        show ?thesis
        proof (cases "solve_2 L (hw s) ((self s)\<lparr>iw_alpha_1 := a1\<rparr>) q")
          case (Inl e)
          with Suc.prems l2 c2 p a1 q show ?thesis
            by (auto simp: pbind_def refine_def)
        next
          case (Inr a2)
          let ?s4 = "(log reads_2 ?s2)\<lparr>self := (self s)\<lparr>iw_alpha_1 := a1, iw_alpha_2 := a2\<rparr>\<rparr>"
          have "align_loop L n ?s4 = (r, s')"
            using Suc.prems l2 c2 Inr by (simp add: pbind_def setself_def self_log)
          then have "case refine_n L (hw ?s4) n (self ?s4) of
              Inl e \<Rightarrow> r = Inl e | Inr w \<Rightarrow> r = Inr () \<and> self s' = w"
            by (rule Suc.IH)
          moreover have "hw ?s4 = (hw s)\<lparr>io := io (hw s) @ reads_1 @ reads_2\<rparr>"
            by (simp add: hw_log)
          moreover have "refine L (hw s) (self s) = Inr ((self s)\<lparr>iw_alpha_1 := a1, iw_alpha_2 := a2\<rparr>)"
            using p a1 q Inr by (simp add: refine_def)
          ultimately show ?thesis by (simp add: refine_n_io)
        qed
      qed
    qed
  qed
qed

subsection \<open>The closed form returns when no square overflows\<close>

lemma np_quot_cases: "np_quot n d = NonFinite \<or> (\<exists>v. np_quot n d = Num v)"
  by (cases n; cases d) (auto split: fl.split)

lemma closed_form_cases:
  "closed_form_1 L x0 xp0 a d2 d4 d5 m1hdx m2hdx x = NonFinite
     \<or> (\<exists>v. closed_form_1 L x0 xp0 a d2 d4 d5 m1hdx m2hdx x = Num v)"
  "closed_form_2 L x0 xp0 a d2 d4 d6 m1hdx m2hdx x = NonFinite
     \<or> (\<exists>v. closed_form_2 L x0 xp0 a d2 d4 d6 m1hdx m2hdx x = Num v)"
  unfolding closed_form_1_def closed_form_2_def by (rule np_quot_cases)+

lemma overflow_free_io: "overflow_free L (d\<lparr>io := evs\<rparr>) p q a = overflow_free L d p q a"
  by (simp add: overflow_free_def goal_1_def goal_2_def)

lemma overflow_free_np:
  "overflow_free L d p q a \<Longrightarrow> b = NonFinite \<or> (\<exists>v. b = Num v) \<Longrightarrow> overflow_free L d p q b"
  by (auto simp: overflow_free_def)

lemma solve_1_closed:
  assumes "iw_tan w = PBool False" and "iw_alpha_2 w \<noteq> NoneVal"
    and "overflow_free L d p q (iw_alpha_2 w)"
  shows "\<exists>v. solve_1 L d w p = Inr v \<and> (v = NonFinite \<or> (\<exists>r. v = Num r))"
  using assms
    closed_form_cases(1)[of L "src_x (source d)" "src_xp (source d)" _ "mir_z (mirror_1 d)"
      "mir_z (mirror_2 d)" "img_z (imager_1 d)" "mir_x (mirror_1 d)" "mir_x (mirror_2 d)" "goal_1 d p"]
  by (cases "iw_alpha_2 w") (auto simp: solve_1_def alpha1_def overflow_free_def)

lemma solve_2_closed:
  assumes "iw_tan w = PBool False" and "iw_alpha_1 w = NonFinite \<or> (\<exists>r. iw_alpha_1 w = Num r)"
    and "overflow_free L d p q a"
  shows "\<exists>v. solve_2 L d w q = Inr v \<and> (v = NonFinite \<or> (\<exists>r. v = Num r))"
  using assms
    closed_form_cases(2)[of L "src_x (source d)" "src_xp (source d)" _ "mir_z (mirror_1 d)"
      "mir_z (mirror_2 d)" "img_z (imager_2 d)" "mir_x (mirror_1 d)" "mir_x (mirror_2 d)" "goal_2 d q"]
  by (cases "iw_alpha_1 w") (auto simp: solve_2_def alpha2_def overflow_free_def)

lemma refine_total:
  assumes "iw_tan w = PBool False" and "iw_alpha_2 w \<noteq> NoneVal"
    and "iw_p1 w = Some p" and "iw_p2 w = Some q"
    and "overflow_free L d p q (iw_alpha_2 w)"
  shows "\<exists>w'. refine L d w = Inr w' \<and> iw_tan w' = PBool False \<and> iw_alpha_2 w' \<noteq> NoneVal
           \<and> iw_p1 w' = Some p \<and> iw_p2 w' = Some q \<and> overflow_free L d p q (iw_alpha_2 w')"
proof -
  from solve_1_closed[OF assms(1,2,5)] obtain a1
    where a1: "solve_1 L d w p = Inr a1" "a1 = NonFinite \<or> (\<exists>r. a1 = Num r)" by blast
  have t: "iw_tan (w\<lparr>iw_alpha_1 := a1\<rparr>) = PBool False" using assms(1) by simp
  have n: "iw_alpha_1 (w\<lparr>iw_alpha_1 := a1\<rparr>) = NonFinite \<or> (\<exists>r. iw_alpha_1 (w\<lparr>iw_alpha_1 := a1\<rparr>) = Num r)"
    using a1(2) by simp
  from solve_2_closed[OF t n assms(5)] obtain a2
    where a2: "solve_2 L d (w\<lparr>iw_alpha_1 := a1\<rparr>) q = Inr a2" "a2 = NonFinite \<or> (\<exists>r. a2 = Num r)" by blast
  have "refine L d w = Inr (w\<lparr>iw_alpha_1 := a1, iw_alpha_2 := a2\<rparr>)"
    using assms(3,4) a1(1) a2(1) by (simp add: refine_def)
  moreover have "overflow_free L d p q a2" using assms(5) a2(2) by (rule overflow_free_np)
  moreover have "a2 \<noteq> NoneVal" using a2(2) by auto
  ultimately show ?thesis using assms(1,3,4) by simp
qed

lemma refine_n_total:
  assumes "iw_tan w = PBool False" and "iw_alpha_2 w \<noteq> NoneVal"
    and "iw_p1 w = Some p" and "iw_p2 w = Some q"
    and "overflow_free L d p q (iw_alpha_2 w)"
  shows "\<exists>w'. refine_n L d n w = Inr w'"
  using assms
proof (induction n arbitrary: w)
  case 0
  then show ?case by simp
next
  case (Suc n)
  from refine_total[OF Suc.prems] obtain w' where w': "refine L d w = Inr w'"
    "iw_tan w' = PBool False" "iw_alpha_2 w' \<noteq> NoneVal" "iw_p1 w' = Some p" "iw_p2 w' = Some q"
    "overflow_free L d p q (iw_alpha_2 w')" by blast
  from Suc.IH[OF w'(2-6)] obtain w'' where "refine_n L d n w' = Inr w''" by blast
  with w'(1) show ?case by simp
qed

lemma refine_n_ready:
  "closed_form_ready L s \<Longrightarrow> \<exists>w. refine_n L (hw s) n (self s) = Inr w"
proof -
  assume r: "closed_form_ready L s"
  then obtain p q where "iw_p1 (self s) = Some p" "iw_p2 (self s) = Some q"
    "overflow_free L (hw s) p q (iw_alpha_2 (self s))"
    by (auto simp: closed_form_ready_def split: option.splits)
  moreover from r have "iw_tan (self s) = PBool False" "iw_alpha_2 (self s) \<noteq> NoneVal"
    by (auto simp: closed_form_ready_def)
  ultimately show ?thesis using refine_n_total by blast
qed

lemma align_refine:
  "(case align L p1 p2 move s of
      (Inr (a, b), s') \<Rightarrow>
        refine_n L (hw s) (nat (iw_max_n (self s))) (self (set_targets p1 p2 s)) = Inr (self s')
        \<and> a = iw_alpha_1 (self s') \<and> b = iw_alpha_2 (self s')
    | (Inl e, s') \<Rightarrow>
        refine_n L (hw s) (nat (iw_max_n (self s))) (self (set_targets p1 p2 s)) = Inl e)"
proof -
  obtain r s2 where l: "align_loop L (nat (iw_max_n (self s))) (set_targets p1 p2 s) = (r, s2)"
    by (cases "align_loop L (nat (iw_max_n (self s))) (set_targets p1 p2 s)")
  from align_loop_refine[OF l] show ?thesis
    using l by (cases r) (auto simp: align_unfold hw_set_targets self_commit split: sum.splits)
qed

lemma align_general:
  "(case align L p1 p2 move s of
      (Inr (a, b), s') \<Rightarrow>
        io (hw s') = io (hw s) @ concat (replicate (nat (iw_max_n (self s))) iteration_io)
                       @ (if move = PBool True then [Put Mirror1 ''alpha'' a, Put Mirror2 ''alpha'' b] else [])
        \<and> mir_alpha (mirror_1 (hw s')) = (if move = PBool True then a else mir_alpha (mirror_1 (hw s)))
        \<and> mir_alpha (mirror_2 (hw s')) = (if move = PBool True then b else mir_alpha (mirror_2 (hw s)))
        \<and> iw_alpha_1 (self s') = a \<and> iw_alpha_2 (self s') = b
    | (Inl e, s') \<Rightarrow>
        filter is_put (io (hw s')) = filter is_put (io (hw s))
        \<and> mirror_1 (hw s') = mirror_1 (hw s) \<and> mirror_2 (hw s') = mirror_2 (hw s))"
proof -
  obtain r s2 where l: "align_loop L (nat (iw_max_n (self s))) (set_targets p1 p2 s) = (r, s2)"
    by (cases "align_loop L (nat (iw_max_n (self s))) (set_targets p1 p2 s)")
  have f: "mirror_1 (hw s2) = mirror_1 (hw s) \<and> mirror_2 (hw s2) = mirror_2 (hw s)
     \<and> filter is_put (io (hw s2)) = filter is_put (io (hw s))"
    using reads_only_hw[OF align_loop_reads_only[OF l]] by (simp add: hw_set_targets)
  show ?thesis
  proof (cases r)
    case (Inl e)
    then show ?thesis using l f by (simp add: align_unfold)
  next
    case (Inr u)
    with l have "io (hw s2) = io (hw s) @ concat (replicate (nat (iw_max_n (self s))) iteration_io)"
      using align_loop_io[where L=L and n="nat (iw_max_n (self s))" and s="set_targets p1 p2 s" and u=u and s'=s2]
      by (simp add: hw_set_targets)
    then show ?thesis using l f Inr by (simp add: align_unfold commit_hw self_commit)
  qed
qed

lemma align_total:
  assumes "closed_form_ready L (set_targets p1 p2 s)"
  shows "\<exists>a b s'. align L p1 p2 move s = (Inr (a, b), s')"
proof -
  from refine_n_ready[OF assms] obtain w
    where w: "refine_n L (hw s) (nat (iw_max_n (self s))) (self (set_targets p1 p2 s)) = Inr w"
    by (auto simp: hw_set_targets)
  obtain r s' where a: "align L p1 p2 move s = (r, s')" by (cases "align L p1 p2 move s")
  show ?thesis
  proof (cases r)
    case (Inl e)
    with align_refine[where L=L and ?p1.0=p1 and ?p2.0=p2 and move=move and s=s] a w
    show ?thesis by simp
  next
    case (Inr ab)
    with a show ?thesis by (cases ab) simp
  qed
qed

subsection \<open>The concrete relay\<close>

lemma ex_self: "self ex_state = \<lparr>iw_p1 = Some 0, iw_p2 = Some 0, iw_tan = PBool False, iw_max_n = 1,
   iw_alpha_1 = Num 0, iw_alpha_2 = Num 0\<rparr>"
  by (simp add: ex_state_def IterWalker_init_def ex_kwargs_def ex_devices_def log_def)

lemma ex_hw: "hw ex_state = ex_devices\<lparr>io := [Get Mirror1 ''alpha'', Get Mirror2 ''alpha'']\<rparr>"
  by (simp add: ex_state_def IterWalker_init_def ex_kwargs_def ex_devices_def log_def)

lemma ex_goal:
  "d = ex_devices \<Longrightarrow> goal_1 (d\<lparr>io := evs\<rparr>) 0 = Fin (- 1) \<and> goal_2 (d\<lparr>io := evs\<rparr>) 0 = Fin (- 1)"
  by (simp add: goal_1_def goal_2_def ex_devices_def fin_exact minus_fl_def)

lemma ex_no_raise:
  "\<not> sq_raises ex_lib 0" "\<not> sq_raises ex_lib 1" "\<not> sq_raises ex_lib 2" "\<not> sq_raises ex_lib 3"
  "\<not> sq_raises ex_lib 4" "\<not> sq_raises ex_lib (- 1)" "\<not> sq_raises ex_lib (1 / 2)"
  by (simp_all add: sq_raises_def ex_lib_def fin_exact)

lemma ex_alpha1: "alpha1 ex_lib 0 0 (Num 0) 1 2 3 0 0 (Fin (- 1)) (PBool False) = Inr (Num (1 / 2))"
  by (simp add: alpha1_def sq_raises_def closed_form_1_def alpha1_B_def alpha1_D_def ex_lib_def
      fin_exact minus_fl_def)

lemma ex_alpha1_half: "alpha1 ex_lib 0 0 (Num (1 / 2)) 1 2 3 0 0 (Fin (- 1)) (PBool False) = Inr (Num (1 / 2))"
  by (simp add: alpha1_def sq_raises_def closed_form_1_def alpha1_B_def alpha1_D_def ex_lib_def
      fin_exact minus_fl_def)

lemma ex_alpha2_stale: "alpha2 ex_lib 0 0 (Num 0) 1 2 4 0 0 (Fin (- 1)) (PBool False) = Inr (Num (- 1 / 4))"
  by (simp add: alpha2_def sq_raises_def closed_form_2_def alpha2_B_def alpha2_D_def ex_lib_def
      fin_exact minus_fl_def)

lemma ex_alpha2_fresh: "alpha2 ex_lib 0 0 (Num (1 / 2)) 1 2 4 0 0 (Fin (- 1)) (PBool False) = Inr (Num (1 / 2))"
  by (simp add: alpha2_def sq_raises_def closed_form_2_def alpha2_B_def alpha2_D_def ex_lib_def
      fin_exact minus_fl_def)

lemma ex_solve_1: "iw_tan w = PBool False \<Longrightarrow> iw_alpha_2 w = Num 0 \<Longrightarrow> solve_1 ex_lib (d\<lparr>io := evs\<rparr>) w 0 = Inr (Num (1/2))" if "d = ex_devices"
  using that ex_goal[OF that, of evs] ex_alpha1 by (simp add: solve_1_def ex_devices_def)

lemma ex_solve_1_half: "iw_tan w = PBool False \<Longrightarrow> iw_alpha_2 w = Num (1/2) \<Longrightarrow> solve_1 ex_lib (d\<lparr>io := evs\<rparr>) w 0 = Inr (Num (1/2))" if "d = ex_devices"
  using that ex_goal[OF that, of evs] ex_alpha1_half by (simp add: solve_1_def ex_devices_def)

lemma ex_solve_2_stale: "iw_tan w = PBool False \<Longrightarrow> iw_alpha_1 w = Num 0 \<Longrightarrow> solve_2 ex_lib (d\<lparr>io := evs\<rparr>) w 0 = Inr (Num (- 1/4))" if "d = ex_devices"
  using that ex_goal[OF that, of evs] ex_alpha2_stale by (simp add: solve_2_def ex_devices_def)

lemma ex_solve_2_fresh: "iw_tan w = PBool False \<Longrightarrow> iw_alpha_1 w = Num (1/2) \<Longrightarrow> solve_2 ex_lib (d\<lparr>io := evs\<rparr>) w 0 = Inr (Num (1/2))" if "d = ex_devices"
  using that ex_goal[OF that, of evs] ex_alpha2_fresh by (simp add: solve_2_def ex_devices_def)

lemma ex_align_loop:
  "align_loop ex_lib (Suc 0) ex_state =
     (Inr (), (log iteration_io ex_state)\<lparr>self := (self ex_state)\<lparr>iw_alpha_1 := Num (1/2), iw_alpha_2 := Num (1/2)\<rparr>\<rparr>)"
proof -
  have p: "iw_p1 (self ex_state) = Some 0" by (simp add: ex_self)
  have c1: "alpha_1_calc ex_lib ex_state = (Inr (Num (1/2)), log reads_1 ex_state)"
    unfolding alpha_1_calc_Some[OF p] ex_hw by (simp add: ex_solve_1 ex_self)
  let ?s2 = "(log reads_1 ex_state)\<lparr>self := (self ex_state)\<lparr>iw_alpha_1 := Num (1/2)\<rparr>\<rparr>"
  have q: "iw_p2 (self ?s2) = Some 0" by (simp add: ex_self self_log)
  have h2: "hw ?s2 = ex_devices\<lparr>io := [Get Mirror1 ''alpha'', Get Mirror2 ''alpha''] @ reads_1\<rparr>"
    by (simp add: hw_log ex_hw)
  have c2: "alpha_2_calc ex_lib ?s2 = (Inr (Num (1/2)), log reads_2 ?s2)"
    unfolding alpha_2_calc_Some[OF q] h2 by (simp add: ex_solve_2_fresh ex_self self_log)
  show ?thesis
    by (simp add: pbind_def c1 c2 setself_def ret_def self_log log_self_update log_log iteration_io_def)
qed

lemma ex_align:
  "align ex_lib None None move ex_state =
     (Inr (Num (1/2), Num (1/2)),
      if move = PBool True
      then commit ((log iteration_io ex_state)\<lparr>self := (self ex_state)\<lparr>iw_alpha_1 := Num (1/2), iw_alpha_2 := Num (1/2)\<rparr>\<rparr>)
      else (log iteration_io ex_state)\<lparr>self := (self ex_state)\<lparr>iw_alpha_1 := Num (1/2), iw_alpha_2 := Num (1/2)\<rparr>\<rparr>)"
proof -
  have n: "nat (iw_max_n (self ex_state)) = Suc 0" by (simp add: ex_self)
  show ?thesis
    unfolding align_unfold set_targets_None n ex_align_loop by simp
qed

lemma ex_step:
  "step ex_lib ex_state = (Inr (Num (1/2), Num (- 1/4)), log iteration_io ex_state)"
proof -
  have p: "iw_p1 (self ex_state) = Some 0" by (simp add: ex_self)
  have c1: "alpha_1_calc ex_lib ex_state = (Inr (Num (1/2)), log reads_1 ex_state)"
    unfolding alpha_1_calc_Some[OF p] ex_hw by (simp add: ex_solve_1 ex_self)
  let ?s2 = "log reads_1 ex_state"
  have q: "iw_p2 (self ?s2) = Some 0" by (simp add: ex_self self_log)
  have h2: "hw ?s2 = ex_devices\<lparr>io := [Get Mirror1 ''alpha'', Get Mirror2 ''alpha''] @ reads_1\<rparr>"
    by (simp add: hw_log ex_hw)
  have c2: "alpha_2_calc ex_lib ?s2 = (Inr (Num (- 1/4)), log reads_2 ?s2)"
    unfolding alpha_2_calc_Some[OF q] h2 by (simp add: ex_solve_2_stale ex_self self_log)
  show ?thesis
    by (simp add: step_def pbind_def c1 c2 ret_def log_log iteration_io_def)
qed

lemma ex_aligned:
  "ex_state_aligned = (log iteration_io ex_state)\<lparr>self := (self ex_state)\<lparr>iw_alpha_1 := Num (1/2), iw_alpha_2 := Num (1/2)\<rparr>\<rparr>"
  by (simp add: ex_state_aligned_def ex_align)

lemma ex_aligned_self: "self ex_state_aligned = \<lparr>iw_p1 = Some 0, iw_p2 = Some 0, iw_tan = PBool False, iw_max_n = 1,
   iw_alpha_1 = Num (1/2), iw_alpha_2 = Num (1/2)\<rparr>"
  by (simp add: ex_aligned ex_self)

lemma ex_aligned_hw: "hw ex_state_aligned = ex_devices\<lparr>io := [Get Mirror1 ''alpha'', Get Mirror2 ''alpha''] @ iteration_io\<rparr>"
  by (simp add: ex_aligned hw_log ex_hw)

lemma ex_refine:
  assumes "d = ex_devices" and "iw_p1 w = Some 0" and "iw_p2 w = Some 0" and "iw_tan w = PBool False"
    and "iw_alpha_2 w = Num 0 \<or> iw_alpha_2 w = Num (1 / 2)"
  shows "refine ex_lib (d\<lparr>io := evs\<rparr>) w = Inr (w\<lparr>iw_alpha_1 := Num (1 / 2), iw_alpha_2 := Num (1 / 2)\<rparr>)"
proof -
  have "solve_1 ex_lib (d\<lparr>io := evs\<rparr>) w 0 = Inr (Num (1 / 2))"
    using assms(4,5) ex_solve_1[OF assms(1)] ex_solve_1_half[OF assms(1)] by blast
  moreover have "solve_2 ex_lib (d\<lparr>io := evs\<rparr>) (w\<lparr>iw_alpha_1 := Num (1 / 2)\<rparr>) 0 = Inr (Num (1 / 2))"
    using assms(4) by (simp add: ex_solve_2_fresh[OF assms(1)])
  ultimately show ?thesis using assms(2,3) by (simp add: refine_def)
qed

lemma ex_refine_2:
  "refine_n ex_lib (hw ex_state_2) 2 (self ex_state_2) =
     Inr ((self ex_state_2)\<lparr>iw_alpha_1 := Num (1 / 2), iw_alpha_2 := Num (1 / 2)\<rparr>)"
proof -
  have h: "hw ex_state_2 = ex_devices\<lparr>io := [Get Mirror1 ''alpha'', Get Mirror2 ''alpha'']\<rparr>"
    by (simp add: ex_state_2_def ex_hw)
  have s: "self ex_state_2 = \<lparr>iw_p1 = Some 0, iw_p2 = Some 0, iw_tan = PBool False, iw_max_n = 2,
     iw_alpha_1 = Num 0, iw_alpha_2 = Num 0\<rparr>"
    by (simp add: ex_state_2_def ex_self)
  show ?thesis
    unfolding h by (simp add: numeral_2_eq_2 ex_refine s)
qed

lemma ex_ready: "closed_form_ready ex_lib ex_state" "closed_form_ready ex_lib ex_state_2"
  using ex_goal[OF refl, of "[Get Mirror1 ''alpha'', Get Mirror2 ''alpha'']"]
  by (simp_all add: closed_form_ready_def overflow_free_def ex_state_2_def ex_self ex_hw ex_no_raise)
     (simp_all add: ex_devices_def ex_no_raise)

section \<open>\<open>step\<close>\<close>

text \<open>
  C3 says that \<open>step()\<close> solves \<open>alpha2\<close> with the \<open>alpha1\<close> it has just
  computed. On the concrete relay, where both estimates are 0, \<open>step()\<close> returns
  \<open>(1/2, -1/4)\<close>: the second component is \<open>alpha2\<close> for the stored estimate 0 of
  \<open>_alpha_1\<close>, while \<open>alpha2\<close> for the fresh \<open>1/2\<close> is \<open>1/2\<close>, which is what
  one iteration of \<open>align\<close> returns. \<open>step()\<close> only reads the devices.
\<close>

theorem step_solves_alpha_2_with_stored_alpha_1:
  "step ex_lib ex_state = (Inr (Num (1 / 2), Num (- 1 / 4)), log iteration_io ex_state)
   \<and> iw_alpha_1 (self ex_state) = Num 0
   \<and> alpha2 ex_lib 0 0 (Num 0) 1 2 4 0 0 (Fin (- 1)) (PBool False) = Inr (Num (- 1 / 4))
   \<and> alpha2 ex_lib 0 0 (Num (1 / 2)) 1 2 4 0 0 (Fin (- 1)) (PBool False) = Inr (Num (1 / 2))
   \<and> fst (align ex_lib None None (PBool False) ex_state) = Inr (Num (1 / 2), Num (1 / 2))
   \<and> filter is_put iteration_io = []"
proof -
  have w: "filter is_put iteration_io = []"
    by (simp add: iteration_io_def reads_1_def reads_2_def)
  show ?thesis
    using ex_alpha2_stale ex_alpha2_fresh w by (simp add: ex_step ex_align ex_self)
qed

section \<open>\<open>align\<close>\<close>

text \<open>
  C4: a call of \<open>align\<close> that returns has run exactly \<open>max_n\<close> refinements, each
  one solving \<open>alpha1\<close> with the current estimate of \<open>alpha2\<close> and then
  \<open>alpha2\<close> with the new estimate of \<open>alpha1\<close>: the walker it leaves is the
  \<open>max_n\<close>-fold refinement of the walker it started from, the pair it returns is the
  pair of estimates of that walker, and the devices were read \<open>max_n\<close> times (the
  reads of \<open>_alpha_1_calc\<close>, then those of \<open>_alpha_2_calc\<close>). After the loop it
  has written the returned pair to mirror 1 and mirror 2 once when \<open>move\<close> is
  \<open>True\<close>, and nothing otherwise. A call that raises does so with the exception of
  the refinement and has written nothing. On a valid walker for the closed form
  (\<open>tan\<close> is \<open>False\<close>, both target pixels set, the estimate of \<open>alpha2\<close> not
  \<open>None\<close>, no square overflowing), \<open>align\<close> returns.
\<close>

theorem align_runs_max_n_iterations_then_commits:
  "(case align L p1 p2 move s of
      (Inr (a, b), s') \<Rightarrow>
        refine_n L (hw s) (nat (iw_max_n (self s))) (self (set_targets p1 p2 s)) = Inr (self s')
        \<and> a = iw_alpha_1 (self s') \<and> b = iw_alpha_2 (self s')
        \<and> io (hw s') = io (hw s) @ concat (replicate (nat (iw_max_n (self s))) iteration_io)
                       @ (if move = PBool True then [Put Mirror1 ''alpha'' a, Put Mirror2 ''alpha'' b] else [])
        \<and> mir_alpha (mirror_1 (hw s')) = (if move = PBool True then a else mir_alpha (mirror_1 (hw s)))
        \<and> mir_alpha (mirror_2 (hw s')) = (if move = PBool True then b else mir_alpha (mirror_2 (hw s)))
    | (Inl e, s') \<Rightarrow>
        refine_n L (hw s) (nat (iw_max_n (self s))) (self (set_targets p1 p2 s)) = Inl e
        \<and> filter is_put (io (hw s')) = filter is_put (io (hw s))
        \<and> mirror_1 (hw s') = mirror_1 (hw s) \<and> mirror_2 (hw s') = mirror_2 (hw s))
   \<and> (closed_form_ready L (set_targets p1 p2 s)
      \<longrightarrow> (\<exists>a b s'. align L p1 p2 move s = (Inr (a, b), s')))"
proof -
  obtain r s' where a: "align L p1 p2 move s = (r, s')" by (cases "align L p1 p2 move s")
  note g = align_general[where L=L and ?p1.0=p1 and ?p2.0=p2 and move=move and s=s]
  note f = align_refine[where L=L and ?p1.0=p1 and ?p2.0=p2 and move=move and s=s]
  note t = align_total[where L=L and ?p1.0=p1 and ?p2.0=p2 and move=move and s=s]
  have "case align L p1 p2 move s of
      (Inr (a, b), s') \<Rightarrow>
        refine_n L (hw s) (nat (iw_max_n (self s))) (self (set_targets p1 p2 s)) = Inr (self s')
        \<and> a = iw_alpha_1 (self s') \<and> b = iw_alpha_2 (self s')
        \<and> io (hw s') = io (hw s) @ concat (replicate (nat (iw_max_n (self s))) iteration_io)
                       @ (if move = PBool True then [Put Mirror1 ''alpha'' a, Put Mirror2 ''alpha'' b] else [])
        \<and> mir_alpha (mirror_1 (hw s')) = (if move = PBool True then a else mir_alpha (mirror_1 (hw s)))
        \<and> mir_alpha (mirror_2 (hw s')) = (if move = PBool True then b else mir_alpha (mirror_2 (hw s)))
    | (Inl e, s') \<Rightarrow>
        refine_n L (hw s) (nat (iw_max_n (self s))) (self (set_targets p1 p2 s)) = Inl e
        \<and> filter is_put (io (hw s')) = filter is_put (io (hw s))
        \<and> mirror_1 (hw s') = mirror_1 (hw s) \<and> mirror_2 (hw s') = mirror_2 (hw s)"
  proof (cases r)
    case (Inl e)
    with a g f show ?thesis by simp
  next
    case (Inr ab)
    with a g f show ?thesis by (cases ab) simp
  qed
  with t show ?thesis by blast
qed

theorem align_runs_max_n_iterations_then_commits_witness:
  "closed_form_ready ex_lib (set_targets None None ex_state_2)
   \<and> iw_max_n (self ex_state_2) = 2
   \<and> (\<exists>s'. align ex_lib None None (PBool True) ex_state_2 = (Inr (Num (1 / 2), Num (1 / 2)), s')
        \<and> self s' = (self ex_state_2)\<lparr>iw_alpha_1 := Num (1 / 2), iw_alpha_2 := Num (1 / 2)\<rparr>
        \<and> io (hw s') = [Get Mirror1 ''alpha'', Get Mirror2 ''alpha''] @ iteration_io @ iteration_io
                          @ [Put Mirror1 ''alpha'' (Num (1 / 2)), Put Mirror2 ''alpha'' (Num (1 / 2))]
        \<and> mir_alpha (mirror_1 (hw s')) = Num (1 / 2) \<and> mir_alpha (mirror_2 (hw s')) = Num (1 / 2))"
proof -
  have h: "closed_form_ready ex_lib (set_targets None None ex_state_2)"
    by (simp add: set_targets_None ex_ready)
  have n: "nat (iw_max_n (self ex_state_2)) = 2" and i: "io (hw ex_state_2) = [Get Mirror1 ''alpha'', Get Mirror2 ''alpha'']"
    by (simp_all add: ex_state_2_def ex_self ex_hw)
  note t = align_runs_max_n_iterations_then_commits[where L=ex_lib and ?p1.0=None and ?p2.0=None
      and move="PBool True" and s=ex_state_2]
  from t h obtain a b s' where r: "align ex_lib None None (PBool True) ex_state_2 = (Inr (a, b), s')"
    by blast
  from t r have c: "refine_n ex_lib (hw ex_state_2) (nat (iw_max_n (self ex_state_2))) (self (set_targets None None ex_state_2)) = Inr (self s')
        \<and> a = iw_alpha_1 (self s') \<and> b = iw_alpha_2 (self s')
        \<and> io (hw s') = io (hw ex_state_2) @ concat (replicate (nat (iw_max_n (self ex_state_2))) iteration_io)
                       @ [Put Mirror1 ''alpha'' a, Put Mirror2 ''alpha'' b]
        \<and> mir_alpha (mirror_1 (hw s')) = a \<and> mir_alpha (mirror_2 (hw s')) = b"
    by simp
  then have w: "self s' = (self ex_state_2)\<lparr>iw_alpha_1 := Num (1 / 2), iw_alpha_2 := Num (1 / 2)\<rparr>"
    unfolding n set_targets_None ex_refine_2 by simp
  then have ab: "a = Num (1 / 2)" "b = Num (1 / 2)" using c by simp_all
  from c have "io (hw s') = [Get Mirror1 ''alpha'', Get Mirror2 ''alpha''] @ iteration_io @ iteration_io
                          @ [Put Mirror1 ''alpha'' a, Put Mirror2 ''alpha'' b]
        \<and> mir_alpha (mirror_1 (hw s')) = a \<and> mir_alpha (mirror_2 (hw s')) = b"
    unfolding n i by (simp add: numeral_2_eq_2)
  with h r w ab show ?thesis by (simp add: ex_state_2_def)
qed

text \<open>
  C5, as stated, fails: after \<open>align()\<close> on the concrete relay the walker's estimate
  of \<open>alpha1\<close> is \<open>1/2\<close> and mirror 1 still has pitch 0. The next
  \<open>_alpha_2_calc\<close> returns \<open>1/2\<close>, the solve for the estimate, not \<open>-1/4\<close>,
  the solve for the pitch of the device, and it does not read \<open>alpha\<close> of mirror 1.
\<close>

theorem calc_ignores_device_alpha:
  "mir_alpha (mirror_1 (hw ex_state_aligned)) = Num 0
   \<and> iw_alpha_1 (self ex_state_aligned) = Num (1 / 2)
   \<and> alpha_2_calc ex_lib ex_state_aligned = (Inr (Num (1 / 2)), log reads_2 ex_state_aligned)
   \<and> alpha2 ex_lib 0 0 (Num 0) 1 2 4 0 0 (Fin (- 1)) (PBool False) = Inr (Num (- 1 / 4))
   \<and> alpha2 ex_lib 0 0 (Num (1 / 2)) 1 2 4 0 0 (Fin (- 1)) (PBool False) = Inr (Num (1 / 2))
   \<and> Get Mirror1 ''alpha'' \<notin> set reads_2"
proof -
  have q: "iw_p2 (self ex_state_aligned) = Some 0" by (simp add: ex_aligned_self)
  have c: "alpha_2_calc ex_lib ex_state_aligned = (Inr (Num (1 / 2)), log reads_2 ex_state_aligned)"
    unfolding alpha_2_calc_Some[OF q] ex_aligned_hw by (simp add: ex_solve_2_fresh ex_aligned_self)
  show ?thesis
    using c ex_alpha2_stale ex_alpha2_fresh
    by (simp add: ex_aligned_hw ex_aligned_self ex_devices_def reads_2_def)
qed

text \<open>
  C5, amended: each geometry calculation reads the source, the positions of both
  mirrors and the imager from the devices at that moment, and takes the companion
  mirror's angle from the walker's own estimate (\<open>_alpha_2\<close> for \<open>alpha1\<close>,
  \<open>_alpha_1\<close> for \<open>alpha2\<close>): it does not read \<open>alpha\<close> of a mirror, and its
  result does not depend on the pitch the mirrors have. The estimates are read from the
  mirrors once, at construction. The two calculations, \<open>step\<close> and
  \<open>_move_mirrors\<close> leave the walker, and so the estimates, as they were; \<open>align\<close>
  leaves the estimates of its refinements: what it returns is what \<open>max_n\<close>
  refinements of the walker return, and when it returns the walker is the refined one.
\<close>

theorem calc_reads_devices_but_uses_estimate:
  "alpha_1_calc L s =
     (case iw_p1 (self s) of
        None \<Rightarrow> (Inl TypeError, log (butlast reads_1) s)
      | Some p \<Rightarrow>
          (alpha1 L (src_x (source (hw s))) (src_xp (source (hw s))) (iw_alpha_2 (self s))
             (mir_z (mirror_1 (hw s))) (mir_z (mirror_2 (hw s))) (img_z (imager_1 (hw s)))
             (mir_x (mirror_1 (hw s))) (mir_x (mirror_2 (hw s))) (goal_1 (hw s) p)
             (iw_tan (self s)),
           log reads_1 s))
   \<and> alpha_2_calc L s =
     (case iw_p2 (self s) of
        None \<Rightarrow> (Inl TypeError, log (butlast reads_2) s)
      | Some p \<Rightarrow>
          (alpha2 L (src_x (source (hw s))) (src_xp (source (hw s))) (iw_alpha_1 (self s))
             (mir_z (mirror_1 (hw s))) (mir_z (mirror_2 (hw s))) (img_z (imager_2 (hw s)))
             (mir_x (mirror_1 (hw s))) (mir_x (mirror_2 (hw s))) (goal_2 (hw s) p)
             (iw_tan (self s)),
           log reads_2 s))
   \<and> Get Mirror2 ''alpha'' \<notin> set reads_1 \<and> Get Mirror1 ''alpha'' \<notin> set reads_2
   \<and> fst (alpha_1_calc L (s\<lparr>hw := (hw s)\<lparr>mirror_1 := (mirror_1 (hw s))\<lparr>mir_alpha := v1\<rparr>,
                                           mirror_2 := (mirror_2 (hw s))\<lparr>mir_alpha := v2\<rparr>\<rparr>\<rparr>))
       = fst (alpha_1_calc L s)
   \<and> fst (alpha_2_calc L (s\<lparr>hw := (hw s)\<lparr>mirror_1 := (mirror_1 (hw s))\<lparr>mir_alpha := v1\<rparr>,
                                           mirror_2 := (mirror_2 (hw s))\<lparr>mir_alpha := v2\<rparr>\<rparr>\<rparr>))
       = fst (alpha_2_calc L s)
   \<and> iw_alpha_1 (self (IterWalker_init kw d)) = mir_alpha (mirror_1 d)
   \<and> iw_alpha_2 (self (IterWalker_init kw d)) = mir_alpha (mirror_2 d)
   \<and> io (hw (IterWalker_init kw d)) = io d @ [Get Mirror1 ''alpha'', Get Mirror2 ''alpha'']
   \<and> self (snd (alpha_1_calc L s)) = self s
   \<and> self (snd (alpha_2_calc L s)) = self s
   \<and> self (snd (step L s)) = self s
   \<and> self (snd (move_mirrors a b s)) = self s
   \<and> fst (align L p1 p2 move s) =
       (case refine_n L (hw s) (nat (iw_max_n (self s))) (self (set_targets p1 p2 s)) of
          Inl e \<Rightarrow> Inl e
        | Inr w \<Rightarrow> Inr (iw_alpha_1 w, iw_alpha_2 w))
   \<and> (case refine_n L (hw s) (nat (iw_max_n (self s))) (self (set_targets p1 p2 s)) of
          Inl e \<Rightarrow> True
        | Inr w \<Rightarrow> self (snd (align L p1 p2 move s)) = w)"
proof -
  have a: "fst (alpha_1_calc L (s\<lparr>hw := (hw s)\<lparr>mirror_1 := (mirror_1 (hw s))\<lparr>mir_alpha := v1\<rparr>,
                                           mirror_2 := (mirror_2 (hw s))\<lparr>mir_alpha := v2\<rparr>\<rparr>\<rparr>))
       = fst (alpha_1_calc L s)"
    by (cases "iw_p1 (self s)") (simp_all add: alpha_1_calc_eq solve_1_def goal_1_def)
  have b: "fst (alpha_2_calc L (s\<lparr>hw := (hw s)\<lparr>mirror_1 := (mirror_1 (hw s))\<lparr>mir_alpha := v1\<rparr>,
                                           mirror_2 := (mirror_2 (hw s))\<lparr>mir_alpha := v2\<rparr>\<rparr>\<rparr>))
       = fst (alpha_2_calc L s)"
    by (cases "iw_p2 (self s)") (simp_all add: alpha_2_calc_eq solve_2_def goal_2_def)
  have c: "Get Mirror2 ''alpha'' \<notin> set reads_1 \<and> Get Mirror1 ''alpha'' \<notin> set reads_2"
    by (simp add: reads_1_def reads_2_def)
  have d: "iw_alpha_1 (self (IterWalker_init kw d)) = mir_alpha (mirror_1 d)
   \<and> iw_alpha_2 (self (IterWalker_init kw d)) = mir_alpha (mirror_2 d)
   \<and> io (hw (IterWalker_init kw d)) = io d @ [Get Mirror1 ''alpha'', Get Mirror2 ''alpha'']"
    by (simp add: IterWalker_init_def log_def)
  have e: "alpha_1_calc L s =
     (case iw_p1 (self s) of
        None \<Rightarrow> (Inl TypeError, log (butlast reads_1) s)
      | Some p \<Rightarrow>
          (alpha1 L (src_x (source (hw s))) (src_xp (source (hw s))) (iw_alpha_2 (self s))
             (mir_z (mirror_1 (hw s))) (mir_z (mirror_2 (hw s))) (img_z (imager_1 (hw s)))
             (mir_x (mirror_1 (hw s))) (mir_x (mirror_2 (hw s))) (goal_1 (hw s) p)
             (iw_tan (self s)),
           log reads_1 s))"
    by (simp add: alpha_1_calc_eq solve_1_def split: option.split)
  have f: "alpha_2_calc L s =
     (case iw_p2 (self s) of
        None \<Rightarrow> (Inl TypeError, log (butlast reads_2) s)
      | Some p \<Rightarrow>
          (alpha2 L (src_x (source (hw s))) (src_xp (source (hw s))) (iw_alpha_1 (self s))
             (mir_z (mirror_1 (hw s))) (mir_z (mirror_2 (hw s))) (img_z (imager_2 (hw s)))
             (mir_x (mirror_1 (hw s))) (mir_x (mirror_2 (hw s))) (goal_2 (hw s) p)
             (iw_tan (self s)),
           log reads_2 s))"
    by (simp add: alpha_2_calc_eq solve_2_def split: option.split)
  have g1: "self (snd (alpha_1_calc L s)) = self s" for s
    by (simp add: alpha_1_calc_eq self_log split: option.split)
  have g2: "self (snd (alpha_2_calc L s)) = self s" for s
    by (simp add: alpha_2_calc_eq self_log split: option.split)
  have g3: "self (snd (step L s)) = self s"
  proof -
    obtain r1 s1 where c1: "alpha_1_calc L s = (r1, s1)" by (cases "alpha_1_calc L s")
    obtain r2 s2 where c2: "alpha_2_calc L s1 = (r2, s2)" by (cases "alpha_2_calc L s1")
    have "self s1 = self s" using g1[of s] c1 by simp
    moreover have "self s2 = self s1" using g2[of s1] c2 by simp
    ultimately show ?thesis
      using c1 c2 by (cases r1; cases r2) (simp_all add: step_def pbind_def ret_def)
  qed
  have g4: "self (snd (move_mirrors a b s)) = self s"
    by (simp add: move_mirrors_def pbind_def set_alpha_def log_def)
  obtain r s' where al: "align L p1 p2 move s = (r, s')" by (cases "align L p1 p2 move s")
  note ar = align_refine[where L=L and ?p1.0=p1 and ?p2.0=p2 and move=move and s=s]
  have h1: "fst (align L p1 p2 move s) =
       (case refine_n L (hw s) (nat (iw_max_n (self s))) (self (set_targets p1 p2 s)) of
          Inl e \<Rightarrow> Inl e
        | Inr w \<Rightarrow> Inr (iw_alpha_1 w, iw_alpha_2 w))"
  proof (cases r)
    case (Inl e)
    with al ar show ?thesis by simp
  next
    case (Inr ab)
    with al ar show ?thesis by (cases ab) simp
  qed
  have h2: "case refine_n L (hw s) (nat (iw_max_n (self s))) (self (set_targets p1 p2 s)) of
          Inl e \<Rightarrow> True
        | Inr w \<Rightarrow> self (snd (align L p1 p2 move s)) = w"
  proof (cases r)
    case (Inl e)
    with al ar show ?thesis by simp
  next
    case (Inr ab)
    with al ar show ?thesis by (cases ab) simp
  qed
  from a b c d e f g1[of s] g2[of s] g3 g4 h1 h2 show ?thesis by blast
qed

theorem calc_reads_devices_but_uses_estimate_witness:
  "alpha_1_calc ex_lib ex_state_aligned = (Inr (Num (1 / 2)), log reads_1 ex_state_aligned)
   \<and> alpha_2_calc ex_lib ex_state_aligned = (Inr (Num (1 / 2)), log reads_2 ex_state_aligned)
   \<and> refine_n ex_lib (hw ex_state_2) 2 (self ex_state_2)
       = Inr ((self ex_state_2)\<lparr>iw_alpha_1 := Num (1 / 2), iw_alpha_2 := Num (1 / 2)\<rparr>)
   \<and> fst (align ex_lib None None (PBool True) ex_state_2) = Inr (Num (1 / 2), Num (1 / 2))
   \<and> self (snd (align ex_lib None None (PBool True) ex_state_2))
       = (self ex_state_2)\<lparr>iw_alpha_1 := Num (1 / 2), iw_alpha_2 := Num (1 / 2)\<rparr>
   \<and> self (snd (step ex_lib ex_state)) = self ex_state
   \<and> iw_alpha_1 (self ex_state) = Num 0"
proof -
  note t = calc_reads_devices_but_uses_estimate[where L=ex_lib and s=ex_state_aligned]
  note u = calc_reads_devices_but_uses_estimate[where L=ex_lib and s=ex_state_2 and ?p1.0=None
      and ?p2.0=None and move="PBool True"]
  note v = calc_reads_devices_but_uses_estimate[where L=ex_lib and s=ex_state]
  have n: "nat (iw_max_n (self ex_state_2)) = 2" by (simp add: ex_state_2_def ex_self)
  have g: "goal_1 (hw ex_state_aligned) 0 = Fin (- 1)" "goal_2 (hw ex_state_aligned) 0 = Fin (- 1)"
    unfolding ex_aligned_hw using ex_goal[OF refl] by simp_all
  have c1: "alpha_1_calc ex_lib ex_state_aligned = (Inr (Num (1 / 2)), log reads_1 ex_state_aligned)"
    using t g ex_alpha1_half by (simp add: ex_aligned_self ex_aligned_hw ex_devices_def)
  have c2: "alpha_2_calc ex_lib ex_state_aligned = (Inr (Num (1 / 2)), log reads_2 ex_state_aligned)"
    using t g ex_alpha2_fresh by (simp add: ex_aligned_self ex_aligned_hw ex_devices_def)
  have a1: "fst (align ex_lib None None (PBool True) ex_state_2) = Inr (Num (1 / 2), Num (1 / 2))"
    using u unfolding n set_targets_None ex_refine_2 by simp
  have a2: "self (snd (align ex_lib None None (PBool True) ex_state_2))
       = (self ex_state_2)\<lparr>iw_alpha_1 := Num (1 / 2), iw_alpha_2 := Num (1 / 2)\<rparr>"
    using u unfolding n set_targets_None ex_refine_2 by simp
  have s: "self (snd (step ex_lib ex_state)) = self ex_state" using v by blast
  from c1 c2 a1 a2 s show ?thesis by (simp add: ex_refine_2 ex_self)
qed

text \<open>
  C9, as stated, fails: with \<open>max_n = 0\<close> and \<open>move=True\<close>, \<open>align\<close> writes the
  unrefined estimates to the mirrors. On the walker left by \<open>align()\<close> on the concrete
  relay, with \<open>max_n\<close> set to 0, mirror 1 goes from pitch 0 to \<open>1/2\<close>.
\<close>

theorem align_zero_budget_moves_on_True:
  "iw_max_n (self (ex_state_aligned\<lparr>self := (self ex_state_aligned)\<lparr>iw_max_n := 0\<rparr>\<rparr>)) = 0
   \<and> mir_alpha (mirror_1 (hw (ex_state_aligned\<lparr>self := (self ex_state_aligned)\<lparr>iw_max_n := 0\<rparr>\<rparr>))) = Num 0
   \<and> fst (align ex_lib None None (PBool True)
            (ex_state_aligned\<lparr>self := (self ex_state_aligned)\<lparr>iw_max_n := 0\<rparr>\<rparr>)) = Inr (Num (1 / 2), Num (1 / 2))
   \<and> mir_alpha (mirror_1 (hw (snd (align ex_lib None None (PBool True)
            (ex_state_aligned\<lparr>self := (self ex_state_aligned)\<lparr>iw_max_n := 0\<rparr>\<rparr>))))) = Num (1 / 2)"
  by (simp add: align_unfold set_targets_None ret_def commit_hw self_commit ex_aligned_self ex_aligned_hw ex_devices_def)

text \<open>
  C9, amended: with \<open>max_n \<le> 0\<close>, \<open>align\<close> returns the pair of estimates held
  before the call and leaves them unchanged; it reads no device; it writes nothing
  unless \<open>move\<close> is \<open>True\<close>, and then it writes that pair to both mirrors.
\<close>

theorem align_zero_budget:
  "iw_max_n (self s) \<le> 0 \<Longrightarrow>
     fst (align L p1 p2 move s) = Inr (iw_alpha_1 (self s), iw_alpha_2 (self s))
     \<and> iw_alpha_1 (self (snd (align L p1 p2 move s))) = iw_alpha_1 (self s)
     \<and> iw_alpha_2 (self (snd (align L p1 p2 move s))) = iw_alpha_2 (self s)
     \<and> hw (snd (align L p1 p2 move s)) =
         (if move = PBool True
          then (hw s)\<lparr>mirror_1 := (mirror_1 (hw s))\<lparr>mir_alpha := iw_alpha_1 (self s)\<rparr>,
                      mirror_2 := (mirror_2 (hw s))\<lparr>mir_alpha := iw_alpha_2 (self s)\<rparr>,
                      io := io (hw s) @ [Put Mirror1 ''alpha'' (iw_alpha_1 (self s)),
                                         Put Mirror2 ''alpha'' (iw_alpha_2 (self s))]\<rparr>
          else hw s)"
  by (simp add: align_unfold ret_def commit_hw self_commit hw_set_targets self_set_targets)

theorem align_zero_budget_witness:
  "iw_max_n (self (ex_state\<lparr>self := (self ex_state)\<lparr>iw_max_n := 0\<rparr>\<rparr>)) \<le> 0
   \<and> fst (align ex_lib None None (PBool False) (ex_state\<lparr>self := (self ex_state)\<lparr>iw_max_n := 0\<rparr>\<rparr>))
       = Inr (Num 0, Num 0)
   \<and> hw (snd (align ex_lib None None (PBool False) (ex_state\<lparr>self := (self ex_state)\<lparr>iw_max_n := 0\<rparr>\<rparr>)))
       = hw ex_state"
proof -
  have h: "iw_max_n (self (ex_state\<lparr>self := (self ex_state)\<lparr>iw_max_n := 0\<rparr>\<rparr>)) \<le> 0" by simp
  from align_zero_budget[OF h, where L=ex_lib and ?p1.0=None and ?p2.0=None and move="PBool False"]
  show ?thesis by (simp add: ex_self)
qed

text \<open>
  C10: when \<open>move\<close> is anything but the boolean \<open>True\<close>, \<open>align\<close> leaves both
  mirrors as they were and writes nothing, and it returns what it returns for
  \<open>move=True\<close> (the same pair, or the same exception).
\<close>

theorem align_commits_only_on_True:
  "move \<noteq> PBool True \<Longrightarrow>
     fst (align L p1 p2 move s) = fst (align L p1 p2 (PBool True) s)
     \<and> mirror_1 (hw (snd (align L p1 p2 move s))) = mirror_1 (hw s)
     \<and> mirror_2 (hw (snd (align L p1 p2 move s))) = mirror_2 (hw s)
     \<and> filter is_put (io (hw (snd (align L p1 p2 move s)))) = filter is_put (io (hw s))"
proof -
  assume m: "move \<noteq> PBool True"
  obtain r s2 where l: "align_loop L (nat (iw_max_n (self s))) (set_targets p1 p2 s) = (r, s2)"
    by (cases "align_loop L (nat (iw_max_n (self s))) (set_targets p1 p2 s)")
  have f: "mirror_1 (hw s2) = mirror_1 (hw s) \<and> mirror_2 (hw s2) = mirror_2 (hw s)
     \<and> filter is_put (io (hw s2)) = filter is_put (io (hw s))"
    using reads_only_hw[OF align_loop_reads_only[OF l]] by (simp add: hw_set_targets)
  show ?thesis using m l f by (cases r) (simp_all add: align_unfold)
qed

theorem align_commits_only_on_True_witness:
  "PInt 1 \<noteq> PBool True
   \<and> fst (align ex_lib None None (PInt 1) ex_state) = Inr (Num (1 / 2), Num (1 / 2))
   \<and> fst (align ex_lib None None (PBool True) ex_state) = Inr (Num (1 / 2), Num (1 / 2))
   \<and> mir_alpha (mirror_1 (hw (snd (align ex_lib None None (PInt 1) ex_state)))) = Num 0
   \<and> mir_alpha (mirror_2 (hw (snd (align ex_lib None None (PInt 1) ex_state)))) = Num 0
   \<and> filter is_put (io (hw (snd (align ex_lib None None (PInt 1) ex_state)))) = []
   \<and> mir_alpha (mirror_1 (hw (snd (align ex_lib None None (PBool True) ex_state)))) = Num (1 / 2)"
proof -
  have h: "PInt 1 \<noteq> PBool True" by simp
  have t: "fst (align ex_lib None None (PBool True) ex_state) = Inr (Num (1 / 2), Num (1 / 2))"
    "mir_alpha (mirror_1 (hw (snd (align ex_lib None None (PBool True) ex_state)))) = Num (1 / 2)"
    by (simp_all add: ex_align commit_hw)
  from align_commits_only_on_True[OF h, where L=ex_lib and ?p1.0=None and ?p2.0=None and s=ex_state]
  show ?thesis using t by (simp add: ex_hw ex_devices_def)
qed

section \<open>The closed-form solves\<close>

lemma round64_pow2: "round64 (2 ^ n) = 2 ^ n"
proof -
  have l: "\<lfloor>Transcendental.log 2 \<bar>2 ^ n :: real\<bar>\<rfloor> = int n" by simp
  have m: "max (int n) (- 1022) = int n" by simp
  have q: "quantum (2 ^ n) = 2 powr (real n - 52)"
    unfolding quantum_def l m by simp
  have "(2::real) ^ n / quantum (2 ^ n) = 2 ^ n / 2 powr (real n - 52)" by (simp only: q)
  also have "\<dots> = 2 powr real n / 2 powr (real n - 52)" by (simp add: powr_realpow)
  also have "\<dots> = 2 powr 52" by (simp add: powr_diff)
  also have "\<dots> = 2 ^ 52" using powr_realpow[of 2 52] by simp
  also have "\<dots> = of_int (2 ^ 52)" by simp
  finally have d: "(2::real) ^ n / quantum (2 ^ n) = of_int (2 ^ 52)" .
  have "round64 (2 ^ n) = of_int (2 ^ 52) * quantum (2 ^ n)"
    by (simp add: round64_def d rne_of_int del: of_int_power of_int_numeral)
  also have "\<dots> = 2 ^ n / quantum (2 ^ n) * quantum (2 ^ n)" by (simp only: d)
  also have "\<dots> = 2 ^ n" using quantum_pos[of "2 ^ n"] by simp
  finally show ?thesis .
qed

lemma fmax_less: "fmax < 2 ^ 1024"
proof -
  have "fmax < 2 ^ 53 * 2 ^ 971" unfolding fmax_def by (rule mult_strict_right_mono) simp_all
  also have "\<dots> = 2 ^ 1024" by (simp add: power_add[symmetric])
  finally show ?thesis .
qed

lemma fin_pow2_overflow: "1024 \<le> n \<Longrightarrow> fin (2 ^ n) = PInf"
proof -
  assume "1024 \<le> n"
  then have "(2::real) ^ 1024 \<le> 2 ^ n" by (rule power_increasing) simp
  with fmax_less have "fmax < 2 ^ n" by linarith
  then show ?thesis by (simp add: fin_def round64_pow2)
qed

lemma ex_sq_overflow: "sq_raises ex_lib (2 ^ 600)"
proof -
  have e: "(2::real) ^ 600 * 2 ^ 600 = 2 ^ 1200" by (simp add: power_add[symmetric])
  have "libm_pow2 ex_lib (2 ^ 600) = fin (2 ^ 600 * 2 ^ 600)"
    unfolding ex_lib_def by (simp only: lib.select_convs)
  also have "\<dots> = fin (2 ^ 1200)" by (simp only: e)
  also have "\<dots> = PInf" by (rule fin_pow2_overflow) simp
  finally show ?thesis unfolding sq_raises_def by (rule disjI1)
qed

lemma fl_sub_self: "Fin 4 * (Fin d - Fin d) = Fin 0"
  by (simp add: minus_fl_def fin_def round64_def fmax_def)

lemma np_quot_zero: "np_quot n (Fin 0) = NonFinite"
  by (cases n) simp_all

text \<open>
  C1, as stated, fails: with both mirrors at \<open>z = 1\<close> (\<open>d2 = d4\<close>) and the imager at
  \<open>z = 2\<close>, the closed forms of \<open>alpha1\<close> and \<open>alpha2\<close> return finite angles and
  raise nothing.
\<close>

theorem equal_mirror_z_raises_nothing:
  "alpha1 ex_lib 0 0 (Num 0) 1 1 2 0 0 (Fin (- 1)) (PBool False) = Inr (Num (1 / 2))
   \<and> alpha2 ex_lib 0 0 (Num 0) 1 1 2 0 0 (Fin (- 1)) (PBool False) = Inr (Num (- 1 / 2))"
  by (simp add: alpha1_def alpha2_def sq_raises_def closed_form_1_def closed_form_2_def
      alpha1_B_def alpha1_D_def alpha2_B_def alpha2_D_def ex_lib_def fin_exact minus_fl_def)

text \<open>
  C1, amended: the closed forms have no error for equal mirror z-positions. Whether
  \<open>d2 = d4\<close> or not, a closed-form solve whose companion angle is not \<open>None\<close>
  either returns a float or raises \<open>OverflowError\<close>, and it raises exactly when the
  square of one of its finite Python floats overflows. Its divisor is four times the
  difference of the z of mirror 2 and the z of the target imager (\<open>d4 - d5\<close> in
  \<open>alpha1\<close>, \<open>d4 - d6\<close> in \<open>alpha2\<close>); when that difference is zero, a call
  that does not raise returns an infinity or \<open>nan\<close>.
\<close>

theorem closed_form_raises_only_on_overflow:
  "a \<noteq> NoneVal \<Longrightarrow>
     (alpha1 L x0 xp0 a d2 d4 d5 m1hdx m2hdx x (PBool False) = Inl OverflowError
        \<or> (\<exists>v. alpha1 L x0 xp0 a d2 d4 d5 m1hdx m2hdx x (PBool False) = Inr v \<and> v \<noteq> NoneVal))
     \<and> (alpha1 L x0 xp0 a d2 d4 d5 m1hdx m2hdx x (PBool False) = Inl OverflowError)
         = (sq_raises L d2 \<or> sq_raises L d4 \<or> sq_raises L d5 \<or> sq_raises L m2hdx
              \<or> fl_sq_raises L x \<or> (\<exists>r. a = PyNum r \<and> sq_raises L r))
     \<and> (d4 = d5 \<longrightarrow> alpha1 L x0 xp0 a d2 d4 d5 m1hdx m2hdx x (PBool False) = Inl OverflowError
            \<or> alpha1 L x0 xp0 a d2 d4 d5 m1hdx m2hdx x (PBool False) = Inr NonFinite)
     \<and> (alpha2 L x0 xp0 a d2 d4 d6 m1hdx m2hdx x (PBool False) = Inl OverflowError
        \<or> (\<exists>v. alpha2 L x0 xp0 a d2 d4 d6 m1hdx m2hdx x (PBool False) = Inr v \<and> v \<noteq> NoneVal))
     \<and> (alpha2 L x0 xp0 a d2 d4 d6 m1hdx m2hdx x (PBool False) = Inl OverflowError)
         = (sq_raises L d2 \<or> sq_raises L d4 \<or> sq_raises L d6 \<or> sq_raises L xp0
              \<or> sq_raises L m1hdx \<or> fl_sq_raises L x \<or> sq_raises L x0
              \<or> (\<exists>r. a = PyNum r \<and> sq_raises L r))
     \<and> (d4 = d6 \<longrightarrow> alpha2 L x0 xp0 a d2 d4 d6 m1hdx m2hdx x (PBool False) = Inl OverflowError
            \<or> alpha2 L x0 xp0 a d2 d4 d6 m1hdx m2hdx x (PBool False) = Inr NonFinite)"
proof -
  assume a: "a \<noteq> NoneVal"
  have c1: "closed_form_1 L x0 xp0 r d2 d4 d5 m1hdx m2hdx x \<noteq> NoneVal" for r
    using closed_form_cases(1)[of L x0 xp0 r d2 d4 d5 m1hdx m2hdx x] by auto
  have c2: "closed_form_2 L x0 xp0 r d2 d4 d6 m1hdx m2hdx x \<noteq> NoneVal" for r
    using closed_form_cases(2)[of L x0 xp0 r d2 d4 d6 m1hdx m2hdx x] by auto
  have z1: "d4 = d5 \<Longrightarrow> closed_form_1 L x0 xp0 r d2 d4 d5 m1hdx m2hdx x = NonFinite" for r
    by (simp add: closed_form_1_def fl_sub_self np_quot_zero)
  have z2: "d4 = d6 \<Longrightarrow> closed_form_2 L x0 xp0 r d2 d4 d6 m1hdx m2hdx x = NonFinite" for r
    by (simp add: closed_form_2_def fl_sub_self np_quot_zero)
  have p1: "alpha1 L x0 xp0 a d2 d4 d5 m1hdx m2hdx x (PBool False) = Inl OverflowError
        \<or> (\<exists>v. alpha1 L x0 xp0 a d2 d4 d5 m1hdx m2hdx x (PBool False) = Inr v \<and> v \<noteq> NoneVal)"
    using a c1 by (cases a) (simp_all add: alpha1_def)
  have p2: "(alpha1 L x0 xp0 a d2 d4 d5 m1hdx m2hdx x (PBool False) = Inl OverflowError)
         = (sq_raises L d2 \<or> sq_raises L d4 \<or> sq_raises L d5 \<or> sq_raises L m2hdx
              \<or> fl_sq_raises L x \<or> (\<exists>r. a = PyNum r \<and> sq_raises L r))"
    using a by (cases a) (auto simp: alpha1_def)
  have p3: "d4 = d5 \<longrightarrow> alpha1 L x0 xp0 a d2 d4 d5 m1hdx m2hdx x (PBool False) = Inl OverflowError
            \<or> alpha1 L x0 xp0 a d2 d4 d5 m1hdx m2hdx x (PBool False) = Inr NonFinite"
    using a z1 by (cases a) (simp_all add: alpha1_def)
  have q1: "alpha2 L x0 xp0 a d2 d4 d6 m1hdx m2hdx x (PBool False) = Inl OverflowError
        \<or> (\<exists>v. alpha2 L x0 xp0 a d2 d4 d6 m1hdx m2hdx x (PBool False) = Inr v \<and> v \<noteq> NoneVal)"
    using a c2 by (cases a) (simp_all add: alpha2_def)
  have q2: "(alpha2 L x0 xp0 a d2 d4 d6 m1hdx m2hdx x (PBool False) = Inl OverflowError)
         = (sq_raises L d2 \<or> sq_raises L d4 \<or> sq_raises L d6 \<or> sq_raises L xp0
              \<or> sq_raises L m1hdx \<or> fl_sq_raises L x \<or> sq_raises L x0
              \<or> (\<exists>r. a = PyNum r \<and> sq_raises L r))"
    using a by (cases a) (auto simp: alpha2_def)
  have q3: "d4 = d6 \<longrightarrow> alpha2 L x0 xp0 a d2 d4 d6 m1hdx m2hdx x (PBool False) = Inl OverflowError
            \<or> alpha2 L x0 xp0 a d2 d4 d6 m1hdx m2hdx x (PBool False) = Inr NonFinite"
    using a z2 by (cases a) (simp_all add: alpha2_def)
  from p1 p2 p3 q1 q2 q3 show ?thesis by blast
qed

theorem closed_form_raises_only_on_overflow_witness:
  "Num 0 \<noteq> NoneVal
   \<and> alpha1 ex_lib 0 0 (Num 0) 1 2 2 0 0 (Fin (- 1)) (PBool False) = Inr NonFinite
   \<and> alpha2 ex_lib 0 0 (Num 0) 1 2 2 0 0 (Fin (- 1)) (PBool False) = Inr NonFinite
   \<and> sq_raises ex_lib (2 ^ 600)
   \<and> alpha1 ex_lib 0 0 (Num 0) (2 ^ 600) 2 3 0 0 (Fin (- 1)) (PBool False) = Inl OverflowError
   \<and> alpha2 ex_lib 0 0 (Num 0) (2 ^ 600) 2 4 0 0 (Fin (- 1)) (PBool False) = Inl OverflowError"
proof -
  have h: "Num 0 \<noteq> NoneVal" by simp
  note t = closed_form_raises_only_on_overflow[OF h, where L=ex_lib and ?x0.0=0 and ?xp0.0=0
      and ?d2.0=1 and ?d4.0=2 and ?d5.0=2 and ?d6.0=2 and ?m1hdx.0=0 and ?m2hdx.0=0 and x="Fin (- 1)"]
  note u = closed_form_raises_only_on_overflow[OF h, where L=ex_lib and ?x0.0=0 and ?xp0.0=0
      and ?d2.0="2 ^ 600" and ?d4.0=2 and ?d5.0=3 and ?d6.0=4 and ?m1hdx.0=0 and ?m2hdx.0=0 and x="Fin (- 1)"]
  have n: "\<not> (sq_raises ex_lib 1 \<or> sq_raises ex_lib 2 \<or> sq_raises ex_lib 2 \<or> sq_raises ex_lib 0
              \<or> fl_sq_raises ex_lib (Fin (- 1)) \<or> (\<exists>r. Num 0 = PyNum r \<and> sq_raises ex_lib r))"
    "\<not> (sq_raises ex_lib 1 \<or> sq_raises ex_lib 2 \<or> sq_raises ex_lib 2 \<or> sq_raises ex_lib 0
              \<or> sq_raises ex_lib 0 \<or> fl_sq_raises ex_lib (Fin (- 1)) \<or> sq_raises ex_lib 0
              \<or> (\<exists>r. Num 0 = PyNum r \<and> sq_raises ex_lib r))"
    by (simp_all add: ex_no_raise)
  from t n have z: "alpha1 ex_lib 0 0 (Num 0) 1 2 2 0 0 (Fin (- 1)) (PBool False) = Inr NonFinite"
    "alpha2 ex_lib 0 0 (Num 0) 1 2 2 0 0 (Fin (- 1)) (PBool False) = Inr NonFinite"
    by blast+
  from u ex_sq_overflow
  have o: "alpha1 ex_lib 0 0 (Num 0) (2 ^ 600) 2 3 0 0 (Fin (- 1)) (PBool False) = Inl OverflowError"
    "alpha2 ex_lib 0 0 (Num 0) (2 ^ 600) 2 4 0 0 (Fin (- 1)) (PBool False) = Inl OverflowError"
    by blast+
  from h z o ex_sq_overflow show ?thesis by blast
qed

text \<open>
  C2, as stated, fails for \<open>alpha2\<close>: on the concrete relay, with companion angle 0
  and target \<open>-1\<close>, the argument of the square root is 1, \<open>alpha2\<close> returns
  \<open>-1/4\<close>, and the root with the negative square root is 0.
\<close>

theorem alpha2_is_not_the_negative_branch:
  "alpha2 ex_lib 0 0 (Num 0) 1 2 4 0 0 (Fin (- 1)) (PBool False) = Inr (Num (- 1 / 4))
   \<and> alpha2_D Fin (sq ex_lib) (Fin 0) (Fin 0) (Fin 0) (Fin 1) (Fin 2) (Fin 4) (Fin 0) (Fin 0) (Fin (- 1)) = Fin 1
   \<and> np_quot (alpha2_B Fin (Fin 0) (Fin 0) (Fin 0) (Fin 1) (Fin 2) (Fin 4) (Fin 0) (Fin 0) (Fin (- 1))
              - fl_sqrt (alpha2_D Fin (sq ex_lib) (Fin 0) (Fin 0) (Fin 0) (Fin 1) (Fin 2) (Fin 4)
                           (Fin 0) (Fin 0) (Fin (- 1))))
       (Fin 4 * (Fin 2 - Fin 4)) = Num 0"
  by (simp add: alpha2_def sq_raises_def closed_form_2_def alpha2_B_def alpha2_D_def ex_lib_def
      fin_exact minus_fl_def)

text \<open>
  C2, amended: for a finite companion angle and when no square overflows, the closed
  form of \<open>alpha1\<close> returns the float \<open>(B - sqrt(D)) / (4*(d4 - d5))\<close>, the root
  with the negative square root, and the closed form of \<open>alpha2\<close> returns the float
  \<open>(B + sqrt(D)) / (4*(d4 - d6))\<close>, the root with the positive square root, each for
  its own \<open>B\<close> and \<open>D\<close> and with every operation rounded.
\<close>

theorem closed_form_branches:
  "(c = Num a \<or> c = PyNum a \<and> \<not> sq_raises L a) \<Longrightarrow>
   (\<not> (sq_raises L d2 \<or> sq_raises L d4 \<or> sq_raises L d5 \<or> sq_raises L m2hdx \<or> fl_sq_raises L x) \<longrightarrow>
      alpha1 L x0 xp0 c d2 d4 d5 m1hdx m2hdx x (PBool False) =
        Inr (np_quot
               (alpha1_B Fin (Fin x0) (Fin xp0) (Fin a) (Fin d2) (Fin d4) (Fin d5) (Fin m1hdx) (Fin m2hdx) x
                - fl_sqrt (alpha1_D Fin (sq L) (Fin x0) (Fin xp0) (Fin a) (Fin d2) (Fin d4) (Fin d5)
                             (Fin m1hdx) (Fin m2hdx) x))
               (Fin 4 * (Fin d4 - Fin d5))))
   \<and> (\<not> (sq_raises L d2 \<or> sq_raises L d4 \<or> sq_raises L d6 \<or> sq_raises L xp0
           \<or> sq_raises L m1hdx \<or> fl_sq_raises L x \<or> sq_raises L x0) \<longrightarrow>
      alpha2 L x0 xp0 c d2 d4 d6 m1hdx m2hdx x (PBool False) =
        Inr (np_quot
               (alpha2_B Fin (Fin x0) (Fin xp0) (Fin a) (Fin d2) (Fin d4) (Fin d6) (Fin m1hdx) (Fin m2hdx) x
                + fl_sqrt (alpha2_D Fin (sq L) (Fin x0) (Fin xp0) (Fin a) (Fin d2) (Fin d4) (Fin d6)
                             (Fin m1hdx) (Fin m2hdx) x))
               (Fin 4 * (Fin d4 - Fin d6))))"
  by (auto simp: alpha1_def alpha2_def closed_form_1_def closed_form_2_def)

theorem closed_form_branches_witness:
  "alpha1_B Fin (Fin 0) (Fin 0) (Fin 0) (Fin 1) (Fin 2) (Fin 3) (Fin 0) (Fin 0) (Fin (- 1)) = Fin (- 1)
   \<and> alpha1_D Fin (sq ex_lib) (Fin 0) (Fin 0) (Fin 0) (Fin 1) (Fin 2) (Fin 3) (Fin 0) (Fin 0) (Fin (- 1)) = Fin 1
   \<and> alpha1 ex_lib 0 0 (Num 0) 1 2 3 0 0 (Fin (- 1)) (PBool False) = Inr (np_quot (Fin (- 1) - Fin 1) (Fin (- 4)))
   \<and> np_quot (Fin (- 1) - Fin 1) (Fin (- 4)) = Num (1 / 2)
   \<and> np_quot (Fin (- 1) + Fin 1) (Fin (- 4)) = Num 0
   \<and> alpha2_B Fin (Fin 0) (Fin 0) (Fin 0) (Fin 1) (Fin 2) (Fin 4) (Fin 0) (Fin 0) (Fin (- 1)) = Fin 1
   \<and> alpha2_D Fin (sq ex_lib) (Fin 0) (Fin 0) (Fin 0) (Fin 1) (Fin 2) (Fin 4) (Fin 0) (Fin 0) (Fin (- 1)) = Fin 1
   \<and> alpha2 ex_lib 0 0 (Num 0) 1 2 4 0 0 (Fin (- 1)) (PBool False) = Inr (np_quot (Fin 1 + Fin 1) (Fin (- 8)))
   \<and> np_quot (Fin 1 + Fin 1) (Fin (- 8)) = Num (- 1 / 4)
   \<and> np_quot (Fin 1 - Fin 1) (Fin (- 8)) = Num 0"
proof -
  have b1: "alpha1_B Fin (Fin 0) (Fin 0) (Fin 0) (Fin 1) (Fin 2) (Fin 3) (Fin 0) (Fin 0) (Fin (- 1)) = Fin (- 1)"
    and d1: "alpha1_D Fin (sq ex_lib) (Fin 0) (Fin 0) (Fin 0) (Fin 1) (Fin 2) (Fin 3) (Fin 0) (Fin 0) (Fin (- 1)) = Fin 1"
    and b2: "alpha2_B Fin (Fin 0) (Fin 0) (Fin 0) (Fin 1) (Fin 2) (Fin 4) (Fin 0) (Fin 0) (Fin (- 1)) = Fin 1"
    and d2: "alpha2_D Fin (sq ex_lib) (Fin 0) (Fin 0) (Fin 0) (Fin 1) (Fin 2) (Fin 4) (Fin 0) (Fin 0) (Fin (- 1)) = Fin 1"
    by (simp_all add: alpha1_B_def alpha1_D_def alpha2_B_def alpha2_D_def ex_lib_def fin_exact minus_fl_def)
  have s: "fl_sqrt (Fin 1) = Fin 1" by (simp add: fin_exact)
  have e: "Fin 4 * (Fin 2 - Fin 3) = Fin (- 4)" "Fin 4 * (Fin 2 - Fin 4) = Fin (- 8)"
    by (simp_all add: fin_exact minus_fl_def)
  have v: "np_quot (Fin (- 1) - Fin 1) (Fin (- 4)) = Num (1 / 2)"
    "np_quot (Fin (- 1) + Fin 1) (Fin (- 4)) = Num 0"
    "np_quot (Fin 1 + Fin 1) (Fin (- 8)) = Num (- 1 / 4)"
    "np_quot (Fin 1 - Fin 1) (Fin (- 8)) = Num 0"
    by (simp_all add: fin_exact minus_fl_def)
  have h: "Num 0 = Num 0 \<or> Num 0 = PyNum 0 \<and> \<not> sq_raises ex_lib 0" by simp
  have n: "\<not> (sq_raises ex_lib 1 \<or> sq_raises ex_lib 2 \<or> sq_raises ex_lib 3 \<or> sq_raises ex_lib 0
              \<or> fl_sq_raises ex_lib (Fin (- 1)))"
    "\<not> (sq_raises ex_lib 1 \<or> sq_raises ex_lib 2 \<or> sq_raises ex_lib 4 \<or> sq_raises ex_lib 0
              \<or> sq_raises ex_lib 0 \<or> fl_sq_raises ex_lib (Fin (- 1)) \<or> sq_raises ex_lib 0)"
    by (simp_all add: ex_no_raise)
  note t1 = closed_form_branches[OF h, where ?x0.0=0 and ?xp0.0=0
      and ?d2.0=1 and ?d4.0=2 and ?d5.0=3 and ?d6.0=4 and ?m1hdx.0=0 and ?m2hdx.0=0 and x="Fin (- 1)"]
  from t1 n have r1: "alpha1 ex_lib 0 0 (Num 0) 1 2 3 0 0 (Fin (- 1)) (PBool False) = Inr (np_quot (Fin (- 1) - Fin 1) (Fin (- 4)))"
    unfolding b1 d1 s e by blast
  from t1 n have r2: "alpha2 ex_lib 0 0 (Num 0) 1 2 4 0 0 (Fin (- 1)) (PBool False) = Inr (np_quot (Fin 1 + Fin 1) (Fin (- 8)))"
    unfolding b2 d2 s e by blast
  from b1 d1 b2 d2 v r1 r2 show ?thesis by blast
qed

subsection \<open>The closed form against the nonlinear solve\<close>













section \<open>\<open>Skywalker.walk\<close>\<close>

lemma walk_kwargs_unbound: "walk_kwargs None s = (Inl NameError, s)"
  by (simp add: walk_kwargs_def sbind_def assign_kw_def)

lemma walk_unbound: "walk None E mode s = Some (Inl NameError, s)"
  by (simp add: walk_def walk_kwargs_unbound)

lemma assign_kw_empty:
  "assign_kw (Some Map.empty) k dflt upd s = (Inr (), s\<lparr>sky := upd (dflt (sky s)) (sky s)\<rparr>)"
  by (simp add: assign_kw_def)

lemma walk_kwargs_ex: "walk_kwargs (Some Map.empty) ex_sky = (Inr (), ex_sky)"
  by (simp add: walk_kwargs_def sbind_def assign_kw_empty ex_sky_def)

lemma modelwalk_ex:
  "sbind (assign_kw (Some Map.empty) ''load_model'' sw_load_model (\<lambda>v w. w\<lparr>sw_load_model := v\<rparr>))
     (\<lambda>_. modelwalk (Some Map.empty) ex_ext) ex_sky = (Inl CNCException, ex_sky)"
  by (simp add: modelwalk_def sbind_def assign_kw_empty ex_sky_def)

lemma iterwalk_loop_returns: "iterwalk_loop E s = Some (Inr (), s)"
  by (subst iterwalk_loop.simps) (simp add: converged_attr_def)

lemma iterwalk_ex: "iterwalk (Some Map.empty) ex_ext ex_sky = Some (Inr (), ex_sky)"
  by (simp add: iterwalk_def assign_kw_empty iterwalk_loop_returns ex_sky_def)

text \<open>
  C6 says that \<open>walk(mode="model")\<close> without a model and without a load request
  raises \<open>CNCException\<close>. In the module as it is, where no \<open>kwargs\<close> is bound, the
  first statement of \<open>walk\<close> raises \<open>NameError\<close>, for every dispatcher, before any
  call leaves it. The branch that raises \<open>CNCException\<close> exists: under a binding of
  \<open>kwargs\<close> to the empty dictionary the concrete dispatcher reaches it.
\<close>

theorem walk_model_raises_NameError:
  "walk module_kwargs E (PStr ''model'') s = Some (Inl NameError, s)
   \<and> sw_model (sky ex_sky) = PNone \<and> sw_load_model (sky ex_sky) = PNone
   \<and> walk (Some Map.empty) ex_ext (PStr ''model'') ex_sky = Some (Inl CNCException, ex_sky)"
proof -
  have a: "walk module_kwargs E (PStr ''model'') s = Some (Inl NameError, s)"
    by (simp add: module_kwargs_def walk_unbound)
  have b: "walk (Some Map.empty) ex_ext (PStr ''model'') ex_sky = Some (Inl CNCException, ex_sky)"
    by (simp add: walk_def walk_kwargs_ex modelwalk_ex)
  have c: "sw_model (sky ex_sky) = PNone \<and> sw_load_model (sky ex_sky) = PNone"
    by (simp add: ex_sky_def)
  from a b c show ?thesis by simp
qed

text \<open>
  C7 says that \<open>walk\<close> in mode \<open>iter\<close> steps the iterative walker as long as the
  observed centroids differ from the targets. In the module as it is, \<open>walk\<close> raises
  \<open>NameError\<close> at its first statement. Under a binding of \<open>kwargs\<close> to the empty
  dictionary, the concrete dispatcher, whose centroids \<open>(5, 7)\<close> differ from its
  targets \<open>(0, 0)\<close>, returns without a single call of \<open>step\<close>: the condition of the
  loop negates the bound method \<open>_converged\<close>, which is true as every method is.
\<close>

theorem walk_iter_never_steps:
  "walk module_kwargs E (PStr ''iter'') s = Some (Inl NameError, s)
   \<and> current_centroids ex_sky = (5, 7) \<and> sw_p1 (sky ex_sky) = PInt 0 \<and> sw_p2 (sky ex_sky) = PInt 0
   \<and> truthy (converged_attr (sky ex_sky))
   \<and> walk (Some Map.empty) ex_ext (PStr ''iter'') ex_sky = Some (Inr (), ex_sky)
   \<and> calls ex_sky = []"
proof -
  have a: "walk module_kwargs E (PStr ''iter'') s = Some (Inl NameError, s)"
    by (simp add: module_kwargs_def walk_unbound)
  have b: "walk (Some Map.empty) ex_ext (PStr ''iter'') ex_sky = Some (Inr (), ex_sky)"
    by (simp add: walk_def walk_kwargs_ex iterwalk_ex)
  have c: "current_centroids ex_sky = (5, 7) \<and> sw_p1 (sky ex_sky) = PInt 0
      \<and> sw_p2 (sky ex_sky) = PInt 0 \<and> calls ex_sky = []"
    by (simp add: ex_sky_def)
  from a b c show ?thesis by (simp add: converged_attr_def)
qed

end
